theory Spec2Isabelle
  imports Complex_Main "HOL-Library.Word"
begin

unbundle bit_operations_syntax

section \<open>The canvas text layer of extraterm (CanvasTextLayer.ts)\<close>

text \<open>
  A shallow embedding of the class \<^verbatim>\<open>CanvasTextLayer\<close>. A JavaScript \<^verbatim>\<open>number\<close> that
  holds a length in pixels or a ratio is a \<^typ>\<open>real\<close>, and a product of such numbers is
  rounded as a double (see \<open>numberTimes\<close> below); document rows are \<^typ>\<open>int\<close>; grid coordinates, palette indices and link
  identifiers are \<^typ>\<open>nat\<close>; a style bitmask is a \<^typ>\<open>32 word\<close>, the width on which
  JavaScript's \<^verbatim>\<open>|\<close> works. A reference that may be \<^verbatim>\<open>null\<close> is an \<^typ>\<open>'a option\<close>.
  The object's fields are a record that every method takes and returns.
\<close>

subsection \<open>Outcomes of a call\<close>

text \<open>
  A method returns, throws (reading a property of \<^verbatim>\<open>null\<close> is a \<^verbatim>\<open>TypeError\<close>), or
  does not return at all (the \<^verbatim>\<open>while (true)\<close> of \<^verbatim>\<open>_getVisibleRows\<close>).
\<close>

datatype error = TypeError

datatype 'a outcome = Returns 'a | Throws error | Diverges

subsection \<open>Numbers\<close>

text \<open>
  A JavaScript number is a double. \<open>toDouble x\<close> is the double nearest to the real
  \<open>x\<close>, a tie going to the even significand: 53 binary digits from the binary exponent
  of \<open>x\<close> down, the exponent held at \<open>-1022\<close> for the subnormal numbers. A real beyond
  the largest double would be \<^verbatim>\<open>Infinity\<close>, which the model does not have.
\<close>

fun bitLength :: "nat \<Rightarrow> nat" where
  "bitLength n = (if n = 0 then 0 else Suc (bitLength (n div 2)))"

declare bitLength.simps [simp del]

text \<open>For \<open>0 < x\<close>, the integer \<open>e\<close> with \<open>2 ^ e \<le> x < 2 ^ (e + 1)\<close>.\<close>

definition binaryExponent :: "real \<Rightarrow> int" where
  "binaryExponent x =
     (if 1 \<le> x then int (bitLength (nat \<lfloor>x\<rfloor>)) - 1
      else - int (bitLength (nat (\<lceil>1 / x\<rceil> - 1))))"

definition roundHalfEven :: "real \<Rightarrow> int" where
  "roundHalfEven x =
     (let f = \<lfloor>x\<rfloor>; d = x - of_int f
      in if d < 1 / 2 then f else if 1 / 2 < d then f + 1 else if even f then f else f + 1)"

definition toDouble :: "real \<Rightarrow> real" where
  "toDouble x =
     (if x = 0 then 0
      else let e = max (binaryExponent \<bar>x\<bar>) (- 1022);
               q = 2 powi (e - 52)
           in of_int (roundHalfEven (x / q)) * q)"

text \<open>
  The operator \<^verbatim>\<open>*\<close> of the source on two numbers: the double nearest to the product
  of the two doubles. (\<^verbatim>\<open>Math.ceil\<close> and \<^verbatim>\<open>Math.round\<close> are exact on a double, and so
  is \<^verbatim>\<open>+ 1\<close> on an integer below \<open>2 ^ 53\<close>.)
\<close>

definition numberTimes :: "real \<Rightarrow> real \<Rightarrow> real" where
  "numberTimes a b = toDouble (toDouble a * toDouble b)"

subsection \<open>Data supplied by the editor\<close>

record LayerConfig =
  firstRow :: int
  lastRow :: int
  charHeightPx :: real

record ViewPortSize =
  widthPx :: real

record Position =
  row :: int
  column :: nat

text \<open>A fold line, with \<^verbatim>\<open>start.row\<close> and \<^verbatim>\<open>end.row\<close> as the source reads them.\<close>

record FoldLine =
  start :: Position
  end' :: Position

subsection \<open>The character cell grid\<close>

text \<open>
  Modelled from the spec: the package \<^verbatim>\<open>extraterm-char-cell-grid\<close> is not among the
  sources. A cell carries a code point, foreground and background palette indices, a style
  bitmask and a link identifier; \<open>ligature\<close> is the span that a ligature marker writes.
\<close>

record Cell =
  codePoint :: nat
  fgClutIndex :: nat
  bgClutIndex :: nat
  style :: "32 word"
  linkID :: nat
  ligature :: nat

text \<open>
  Modelled from the spec: a grid of \<open>width\<close> by \<open>height\<close> cells, \<open>cells g x y\<close> the cell
  in column \<open>x\<close> of row \<open>y\<close>. A position outside the grid is no cell: reading it gives
  no value (\<^verbatim>\<open>undefined\<close>) and writing it changes nothing.
\<close>

record CharCellGrid =
  width :: nat
  height :: nat
  cells :: "nat \<Rightarrow> nat \<Rightarrow> Cell"

definition inGrid :: "'a CharCellGrid_scheme \<Rightarrow> nat \<Rightarrow> nat \<Rightarrow> bool" where
  "inGrid grid x y \<longleftrightarrow> x < width grid \<and> y < height grid"

definition getCell :: "'a CharCellGrid_scheme \<Rightarrow> nat \<Rightarrow> nat \<Rightarrow> Cell option" where
  "getCell grid x y = (if inGrid grid x y then Some (cells grid x y) else None)"

definition setCell :: "CharCellGrid \<Rightarrow> nat \<Rightarrow> nat \<Rightarrow> Cell \<Rightarrow> CharCellGrid" where
  "setCell grid x y c =
     (if inGrid grid x y then grid\<lparr>cells := (cells grid)(x := (cells grid x)(y := c))\<rparr>
      else grid)"

text \<open>
  Modelled from the spec: \<^verbatim>\<open>clearCell\<close> resets a cell to the blank cell of the grid
  package, whose value the sources do not show; it is the parameter \<open>blank\<close>.
\<close>

definition clearCell :: "Cell \<Rightarrow> CharCellGrid \<Rightarrow> nat \<Rightarrow> nat \<Rightarrow> CharCellGrid" where
  "clearCell blank grid x y = setCell grid x y blank"

definition setBgClutIndex :: "CharCellGrid \<Rightarrow> nat \<Rightarrow> nat \<Rightarrow> nat \<Rightarrow> CharCellGrid" where
  "setBgClutIndex grid x y index =
     (case getCell grid x y of
        None \<Rightarrow> grid
      | Some c \<Rightarrow> setCell grid x y (c\<lparr>bgClutIndex := index\<rparr>))"

definition getLinkID :: "'a CharCellGrid_scheme \<Rightarrow> nat \<Rightarrow> nat \<Rightarrow> nat option" where
  "getLinkID grid x y = map_option linkID (getCell grid x y)"

definition getStyle :: "'a CharCellGrid_scheme \<Rightarrow> nat \<Rightarrow> nat \<Rightarrow> 32 word option" where
  "getStyle grid x y = map_option style (getCell grid x y)"

definition setStyle :: "CharCellGrid \<Rightarrow> nat \<Rightarrow> nat \<Rightarrow> 32 word \<Rightarrow> CharCellGrid" where
  "setStyle grid x y st =
     (case getCell grid x y of
        None \<Rightarrow> grid
      | Some c \<Rightarrow> setCell grid x y (c\<lparr>style := st\<rparr>))"

text \<open>
  Modelled from the spec: \<^verbatim>\<open>pasteGrid\<close> copies the source grid cell for cell to the
  offset \<open>(x, y)\<close> of the destination, clipped to the destination.
\<close>

definition pasteGrid ::
  "CharCellGrid \<Rightarrow> 'a CharCellGrid_scheme \<Rightarrow> nat \<Rightarrow> nat \<Rightarrow> CharCellGrid" where
  "pasteGrid grid sourceGrid x y =
     grid\<lparr>cells := (\<lambda>dx dy.
       if x \<le> dx \<and> y \<le> dy \<and> inGrid sourceGrid (dx - x) (dy - y) \<and> inGrid grid dx dy
       then cells sourceGrid (dx - x) (dy - y)
       else cells grid dx dy)\<rparr>"

text \<open>
  Modelled from the spec: a terminal line is a grid of one row together with the mapping
  from a hyperlink URL to the line's link identifier (0 when the line has no such link)
  and back (no URL, \<^verbatim>\<open>null\<close>, for an identifier the line does not know; the argument
  \<open>None\<close> is \<^verbatim>\<open>undefined\<close>).
\<close>

record TerminalLine = CharCellGrid +
  getLinkIDByURL :: "string \<Rightarrow> nat"
  getLinkURLByID :: "nat option \<Rightarrow> string option"

subsection \<open>Collaborators\<close>

text \<open>
  The edit session (\<^verbatim>\<open>TerminalCanvasEditSession\<close>) is known by the three methods the
  layer calls. The second argument of \<^verbatim>\<open>getNextFoldLine\<close> is optional in the source:
  \<open>None\<close> when it is left out.
\<close>

record TerminalCanvasEditSession =
  getTerminalLine :: "int \<Rightarrow> TerminalLine option"
  getLine :: "int \<Rightarrow> string"
  getNextFoldLine :: "int \<Rightarrow> FoldLine option \<Rightarrow> FoldLine option"

text \<open>A ligature marker is its method \<^verbatim>\<open>markLigaturesCharCellGridRow(grid, row, line)\<close>.\<close>

type_synonym LigatureMarker = "CharCellGrid \<Rightarrow> nat \<Rightarrow> string \<Rightarrow> CharCellGrid"

datatype CursorStyle = BLOCK | OtherCursorStyle nat

datatype CodePoints = twemojiCodePoints | windowsColorFontCodePoints

record ExtraFont =
  extraFontFamily :: string
  extraFontSizePx :: real
  unicodeCodePoints :: CodePoints
  sampleChars :: "nat list"

record WebGLCharRenderCanvasOptions =
  optFontFamily :: string
  optFontSizePx :: real
  optPalette :: "nat list"
  optWidthPx :: real
  optHeightPx :: real
  usableWidthPx :: real
  usableHeightPx :: real
  extraFonts :: "ExtraFont list"
  optCursorStyle :: CursorStyle
  optTransparentBackground :: bool

text \<open>
  The render canvas: \<open>canvasId\<close> is the identity of the object, \<open>elementWidth\<close> and
  \<open>elementHeight\<close> the CSS size of its canvas element. \<^verbatim>\<open>setPalette\<close> and
  \<^verbatim>\<open>setCursorStyle\<close> of the canvas store their argument in its options.
\<close>

record WebGLCharRenderCanvas =
  canvasId :: nat
  canvasOptions :: WebGLCharRenderCanvasOptions
  cellGrid :: CharCellGrid
  elementWidth :: real
  elementHeight :: real

text \<open>
  What the layer imports and the sources do not show, taken as parameters:
  \<^verbatim>\<open>ratioToFraction\<close>, the constants \<^verbatim>\<open>PALETTE_BG_INDEX\<close> and
  \<^verbatim>\<open>STYLE_MASK_HYPERLINK_HIGHLIGHT\<close>, the blank cell of \<^verbatim>\<open>clearCell\<close>, the platform
  test of \<^verbatim>\<open>_createCanvas\<close>, the global \<^verbatim>\<open>devicePixelRatio\<close> of the window that the
  constructor reads, the cell grid that the constructor of
  \<^verbatim>\<open>WebGLCharRenderCanvas\<close> builds for its options, and what \<^verbatim>\<open>scrollVertical\<close> of the
  canvas does to its cell grid.
\<close>

record Externals =
  ratioToFraction :: "real \<Rightarrow> int \<times> int"
  PALETTE_BG_INDEX :: nat
  STYLE_MASK_HYPERLINK_HIGHLIGHT :: "32 word"
  blankCell :: Cell
  isWindows :: bool
  windowDevicePixelRatio :: real
  newCellGrid :: "WebGLCharRenderCanvasOptions \<Rightarrow> CharCellGrid"
  scrollVertical :: "CharCellGrid \<Rightarrow> int \<Rightarrow> CharCellGrid"

subsection \<open>The layer object\<close>

text \<open>
  The \<^verbatim>\<open>DIV\<close> that clips the canvas: its CSS width and height (absent until first set)
  and the canvas elements appended to it, by canvas identity.
\<close>

record ClipDiv =
  styleWidth :: "real option"
  styleHeight :: "real option"
  children :: "nat list"

text \<open>
  The private fields of \<^verbatim>\<open>CanvasTextLayer\<close>, without the leading underscore.
  Three more fields record what the layer does to the canvases: \<open>renderPasses\<close> counts
  its calls of \<^verbatim>\<open>render()\<close>, \<open>canvasesCreated\<close> counts its calls of
  \<^verbatim>\<open>new WebGLCharRenderCanvas\<close> and gives each canvas its identity, \<open>disposed\<close> lists
  the canvases on which it called \<^verbatim>\<open>dispose()\<close>.
\<close>

record CanvasTextLayer =
  charRenderCanvas :: "WebGLCharRenderCanvas option"
  canvasWidthCssPx :: real
  canvasHeightCssPx :: real
  currentCanvasRawWidthPx :: real
  ligatureMarker :: "LigatureMarker option"
  editSession :: "TerminalCanvasEditSession option"
  lastConfig :: "LayerConfig option"
  lastViewPortSize :: "ViewPortSize option"
  palette :: "nat list"
  fontFamily :: string
  fontSizePx :: real
  devicePixelRatio :: real
  cursorStyle :: CursorStyle
  clipDiv :: ClipDiv
  transparentBackground :: bool
  hoveredURL :: "string option"
  renderPasses :: nat
  canvasesCreated :: nat
  disposed :: "nat list"

subsection \<open>The constructor\<close>

text \<open>
  The options of the constructor (the content \<^verbatim>\<open>DIV\<close> left out). The constructor does
  not take \<^verbatim>\<open>devicePixelRatio\<close> out of its options: the name it assigns is the global
  of the window.
\<close>

record CanvasTextLayerOptions =
  optionsPalette :: "nat list option"
  optionsFontFamily :: string
  optionsFontSizePx :: real
  optionsDevicePixelRatio :: real
  optionsCursorStyle :: CursorStyle
  optionsLigatureMarker :: "LigatureMarker option"
  optionsTransparentBackground :: bool

definition fallbackPalette :: "nat list" where
  "fallbackPalette = [0x00000000] @ replicate 255 0xffffffff @ [0x00000000, 0xf0f0f0ff, 0xffaa00ff]"

definition newCanvasTextLayer :: "Externals \<Rightarrow> CanvasTextLayerOptions \<Rightarrow> CanvasTextLayer" where
  "newCanvasTextLayer ext options =
     \<lparr>charRenderCanvas = None,
      canvasWidthCssPx = 0,
      canvasHeightCssPx = 0,
      currentCanvasRawWidthPx = 0,
      ligatureMarker = optionsLigatureMarker options,
      editSession = None,
      lastConfig = None,
      lastViewPortSize = None,
      palette = (case optionsPalette options of None \<Rightarrow> fallbackPalette | Some p \<Rightarrow> p),
      fontFamily = optionsFontFamily options,
      fontSizePx = optionsFontSizePx options,
      devicePixelRatio = windowDevicePixelRatio ext,
      cursorStyle = optionsCursorStyle options,
      clipDiv = \<lparr>styleWidth = None, styleHeight = None, children = []\<rparr>,
      transparentBackground = optionsTransparentBackground options,
      hoveredURL = None,
      renderPasses = 0,
      canvasesCreated = 0,
      disposed = []\<rparr>"

subsection \<open>\<^verbatim>\<open>_computeDevicePixelRatioPair\<close>\<close>

record LengthPair =
  screenLength :: real
  renderLength :: real

definition computeDevicePixelRatioPair :: "Externals \<Rightarrow> real \<Rightarrow> real \<Rightarrow> LengthPair" where
  "computeDevicePixelRatioPair ext ratio len =
     (if ratio = 1 then
        \<lparr>screenLength = len, renderLength = len\<rparr>
      else
        (case ratioToFraction ext ratio of (renderMultiple, screenMultiple) \<Rightarrow>
           let screenLen = of_int \<lceil>len / of_int screenMultiple\<rceil> * of_int screenMultiple;
               renderLen = screenLen / of_int screenMultiple * of_int renderMultiple
           in \<lparr>screenLength = screenLen, renderLength = renderLen\<rparr>))"

subsection \<open>\<^verbatim>\<open>_getVisibleRows\<close>\<close>

text \<open>The local \<^verbatim>\<open>foldStart\<close> is a row or \<^verbatim>\<open>Infinity\<close>.\<close>

datatype RowOrInfinity = Row int | Infinity

fun foldStartOf :: "FoldLine option \<Rightarrow> RowOrInfinity" where
  "foldStartOf (Some foldLine) = Row (row (start foldLine))"
| "foldStartOf None = Infinity"

fun rowGreaterThan :: "int \<Rightarrow> RowOrInfinity \<Rightarrow> bool" where
  "rowGreaterThan r (Row s) = (r > s)"
| "rowGreaterThan r Infinity = False"

text \<open>
  One pass through the top of the loop body: the jump over a fold. It gives the new
  \<^verbatim>\<open>row\<close>, \<^verbatim>\<open>foldLine\<close> and \<^verbatim>\<open>foldStart\<close>.
\<close>

definition skipFold ::
  "TerminalCanvasEditSession \<Rightarrow> int \<Rightarrow> FoldLine option \<Rightarrow> RowOrInfinity
     \<Rightarrow> int \<times> FoldLine option \<times> RowOrInfinity" where
  "skipFold session r foldLine foldStart =
     (if rowGreaterThan r foldStart then
        (case foldLine of
           Some f \<Rightarrow>
             let r' = row (end' f) + 1;
                 foldLine' = getNextFoldLine session r' (Some f)
             in (r', foldLine', foldStartOf foldLine')
         | None \<Rightarrow> (r, foldLine, foldStart))
      else (r, foldLine, foldStart))"

partial_function (option) visibleRowsLoop ::
  "TerminalCanvasEditSession \<Rightarrow> int \<Rightarrow> int \<Rightarrow> FoldLine option \<Rightarrow> RowOrInfinity
     \<Rightarrow> int list \<Rightarrow> int list option" where
  "visibleRowsLoop session lastR r foldLine foldStart visibleRows =
     (case skipFold session r foldLine foldStart of (r', foldLine', foldStart') \<Rightarrow>
        if r' > lastR then Some (visibleRows @ [r'])
        else visibleRowsLoop session lastR (r' + 1) foldLine' foldStart' (visibleRows @ [r']))"

definition getVisibleRows :: "CanvasTextLayer \<Rightarrow> LayerConfig \<Rightarrow> int list outcome" where
  "getVisibleRows this config =
     (case editSession this of
        None \<Rightarrow> Throws TypeError
      | Some session \<Rightarrow>
          let r = firstRow config;
              foldLine = getNextFoldLine session r None
          in (case visibleRowsLoop session (lastRow config) r foldLine (foldStartOf foldLine) [] of
                None \<Rightarrow> Diverges
              | Some visibleRows \<Rightarrow> Returns visibleRows))"


subsection \<open>\<^verbatim>\<open>_highlightLinkID\<close> and \<^verbatim>\<open>_writeLinesToGrid\<close>\<close>

text \<open>
  The body of the loop of \<^verbatim>\<open>_highlightLinkID\<close> at column \<open>i\<close>. A column outside the
  grid has no link identifier, so the comparison with \<^verbatim>\<open>===\<close> fails there.
\<close>

definition highlightCell :: "Externals \<Rightarrow> nat \<Rightarrow> nat \<Rightarrow> nat \<Rightarrow> CharCellGrid \<Rightarrow> CharCellGrid" where
  "highlightCell ext canvasRow lid i grid =
     (if getLinkID grid i canvasRow = Some lid then
        setStyle grid i canvasRow
          ((case getStyle grid i canvasRow of None \<Rightarrow> 0 | Some st \<Rightarrow> st)
             OR STYLE_MASK_HYPERLINK_HIGHLIGHT ext)
      else grid)"

definition highlightLinkID ::
  "Externals \<Rightarrow> CharCellGrid \<Rightarrow> nat \<Rightarrow> nat \<Rightarrow> nat \<Rightarrow> nat \<Rightarrow> CharCellGrid" where
  "highlightLinkID ext grid canvasRow startX endX lid =
     fold (highlightCell ext canvasRow lid) [startX..<endX] grid"

text \<open>The body of the loop that fills the columns past the end of the line.\<close>

definition fillCell :: "Externals \<Rightarrow> nat \<Rightarrow> nat \<Rightarrow> CharCellGrid \<Rightarrow> CharCellGrid" where
  "fillCell ext canvasRow i grid =
     setBgClutIndex (clearCell (blankCell ext) grid i canvasRow) i canvasRow (PALETTE_BG_INDEX ext)"

text \<open>
  The body of the loop of \<^verbatim>\<open>_writeLinesToGrid\<close> for one document row, up to the
  increment of \<^verbatim>\<open>canvasRow\<close>.
\<close>

definition writeLine ::
  "Externals \<Rightarrow> TerminalCanvasEditSession \<Rightarrow> string option \<Rightarrow> LigatureMarker option
     \<Rightarrow> CharCellGrid \<Rightarrow> int \<Rightarrow> nat \<Rightarrow> CharCellGrid" where
  "writeLine ext session hovered marker grid docRow canvasRow =
     (case getTerminalLine session docRow of
        Some terminalLine \<Rightarrow>
          let pasted = pasteGrid grid terminalLine 0 canvasRow;
              highlighted =
                (case hovered of
                   None \<Rightarrow> pasted
                 | Some url \<Rightarrow>
                     let lid = getLinkIDByURL terminalLine url
                     in if lid \<noteq> 0
                        then highlightLinkID ext pasted canvasRow 0 (width terminalLine) lid
                        else pasted);
              filled =
                (if width terminalLine < width highlighted
                 then fold (fillCell ext canvasRow)
                        [width terminalLine..<width highlighted] highlighted
                 else highlighted)
          in (case marker of
                Some mark \<Rightarrow> mark filled canvasRow (getLine session docRow)
              | None \<Rightarrow> filled)
      | None \<Rightarrow>
          fold (\<lambda>i g. clearCell (blankCell ext) g i canvasRow) [0..<width grid] grid)"

fun writeLinesLoop ::
  "Externals \<Rightarrow> TerminalCanvasEditSession \<Rightarrow> string option \<Rightarrow> LigatureMarker option
     \<Rightarrow> CharCellGrid \<Rightarrow> int list \<Rightarrow> nat \<Rightarrow> CharCellGrid" where
  "writeLinesLoop ext session hovered marker grid [] canvasRow = grid"
| "writeLinesLoop ext session hovered marker grid (docRow # rows) canvasRow =
     (let grid' = writeLine ext session hovered marker grid docRow canvasRow
      in if canvasRow + 1 \<ge> height grid' then grid'
         else writeLinesLoop ext session hovered marker grid' rows (canvasRow + 1))"

text \<open>With no row to paint the edit session is never read; otherwise it must be there.\<close>

definition writeLinesToGrid ::
  "Externals \<Rightarrow> CanvasTextLayer \<Rightarrow> CharCellGrid \<Rightarrow> int list \<Rightarrow> LigatureMarker option
     \<Rightarrow> CharCellGrid outcome" where
  "writeLinesToGrid ext this grid rows marker =
     (if rows = [] then Returns grid
      else case editSession this of
        None \<Rightarrow> Throws TypeError
      | Some session \<Rightarrow>
          Returns (writeLinesLoop ext session (hoveredURL this) marker grid rows 0))"

subsection \<open>The render canvas: creation, clipping, disposal\<close>

definition createCanvas :: "Externals \<Rightarrow> CanvasTextLayer \<Rightarrow> real \<Rightarrow> real \<Rightarrow> CanvasTextLayer" where
  "createCanvas ext this rawWidthPx rawHeightPx =
     (let widthPxPair = computeDevicePixelRatioPair ext (devicePixelRatio this) rawWidthPx;
          heightPxPair = computeDevicePixelRatioPair ext (devicePixelRatio this) rawHeightPx;
          canvasWidthPx = screenLength widthPxPair;
          canvasHeightPx = screenLength heightPxPair;
          opts = \<lparr>optFontFamily = fontFamily this,
                  optFontSizePx = numberTimes (fontSizePx this) (devicePixelRatio this),
                  optPalette = palette this,
                  optWidthPx = renderLength widthPxPair,
                  optHeightPx = renderLength heightPxPair,
                  usableWidthPx = numberTimes rawWidthPx (devicePixelRatio this),
                  usableHeightPx = numberTimes rawHeightPx (devicePixelRatio this),
                  extraFonts =
                    [\<lparr>extraFontFamily =
                        (if isWindows ext then ''Segoe UI Emoji'' else ''coloremoji''),
                      extraFontSizePx = numberTimes (fontSizePx this) (devicePixelRatio this),
                      unicodeCodePoints =
                        (if isWindows ext then windowsColorFontCodePoints
                         else twemojiCodePoints),
                      sampleChars = [0x1f600]\<rparr>],
                  optCursorStyle = cursorStyle this,
                  optTransparentBackground = transparentBackground this\<rparr>;
          canvas = \<lparr>canvasId = canvasesCreated this,
                    canvasOptions = opts,
                    cellGrid = newCellGrid ext opts,
                    elementWidth = canvasWidthPx,
                    elementHeight = canvasHeightPx\<rparr>
      in this\<lparr>canvasWidthCssPx := rawWidthPx,
              canvasHeightCssPx := rawHeightPx,
              charRenderCanvas := Some canvas,
              canvasesCreated := canvasesCreated this + 1,
              clipDiv := (clipDiv this)\<lparr>children := children (clipDiv this) @ [canvasId canvas]\<rparr>\<rparr>)"

definition setupClipping :: "CanvasTextLayer \<Rightarrow> real \<Rightarrow> real \<Rightarrow> CanvasTextLayer" where
  "setupClipping this rawWidthPx rawHeightPx =
     this\<lparr>clipDiv := (clipDiv this)\<lparr>styleWidth := Some rawWidthPx,
                                     styleHeight := Some rawHeightPx\<rparr>\<rparr>"

definition deleteCanvasElement :: "CanvasTextLayer \<Rightarrow> CanvasTextLayer" where
  "deleteCanvasElement this =
     (case charRenderCanvas this of
        None \<Rightarrow> this
      | Some canvas \<Rightarrow>
          this\<lparr>clipDiv := (clipDiv this)\<lparr>children := removeAll (canvasId canvas)
                                                       (children (clipDiv this))\<rparr>,
               disposed := disposed this @ [canvasId canvas],
               charRenderCanvas := None\<rparr>)"

definition PROVISION_HEIGHT_FACTOR :: real where
  "PROVISION_HEIGHT_FACTOR = 3 / 2"

text \<open>The end of \<^verbatim>\<open>_setUpRenderCanvas\<close>, from the comment \<^verbatim>\<open>// Over-provision\<close> on.\<close>

definition provisionCanvas ::
  "Externals \<Rightarrow> CanvasTextLayer \<Rightarrow> LayerConfig \<Rightarrow> real \<Rightarrow> real \<Rightarrow> nat \<Rightarrow> CanvasTextLayer" where
  "provisionCanvas ext this config rawCanvasWidthPx rawCanvasHeightPx numOfVisibleRows =
     (let provisionCanvasHeight =
            of_int \<lceil>numberTimes
                      (of_int (round (numberTimes (of_nat numOfVisibleRows)
                                        PROVISION_HEIGHT_FACTOR)) + 1)
                      (charHeightPx config)\<rceil>;
          allocRawCanvasWidthPx = max rawCanvasWidthPx (currentCanvasRawWidthPx this);
          this1 = this\<lparr>currentCanvasRawWidthPx := allocRawCanvasWidthPx\<rparr>;
          this2 = createCanvas ext this1 allocRawCanvasWidthPx provisionCanvasHeight
      in setupClipping this2 allocRawCanvasWidthPx rawCanvasHeightPx)"

definition setUpRenderCanvas ::
  "Externals \<Rightarrow> CanvasTextLayer \<Rightarrow> LayerConfig \<Rightarrow> ViewPortSize \<Rightarrow> nat \<Rightarrow> CanvasTextLayer" where
  "setUpRenderCanvas ext this config viewPortSize numOfVisibleRows =
     (let rawCanvasWidthPx = widthPx viewPortSize;
          rawCanvasHeightPx =
            of_int \<lceil>numberTimes (of_nat numOfVisibleRows) (charHeightPx config)\<rceil>
      in case charRenderCanvas this of
           Some canvas \<Rightarrow>
             let this1 = setupClipping this (currentCanvasRawWidthPx this) rawCanvasHeightPx
             in if canvasWidthCssPx this1 \<ge> rawCanvasWidthPx \<and>
                   canvasHeightCssPx this1 \<ge> rawCanvasHeightPx
                then this1
                else provisionCanvas ext (deleteCanvasElement this1) config
                       rawCanvasWidthPx rawCanvasHeightPx numOfVisibleRows
         | None \<Rightarrow>
             provisionCanvas ext this config rawCanvasWidthPx rawCanvasHeightPx numOfVisibleRows)"

subsection \<open>\<^verbatim>\<open>update\<close>, \<^verbatim>\<open>updateRows\<close>, \<^verbatim>\<open>scrollRows\<close>, \<^verbatim>\<open>rerender\<close>, \<^verbatim>\<open>reduceMemory\<close>\<close>

text \<open>
  A call that throws or does not return gives no object back: the fields assigned before
  that point are not modelled.
\<close>

definition update ::
  "Externals \<Rightarrow> CanvasTextLayer \<Rightarrow> LayerConfig \<Rightarrow> ViewPortSize \<Rightarrow> CanvasTextLayer outcome" where
  "update ext this config viewPortSize =
     (let this1 = this\<lparr>lastConfig := Some config, lastViewPortSize := Some viewPortSize\<rparr>
      in case getVisibleRows this1 config of
           Throws e \<Rightarrow> Throws e
         | Diverges \<Rightarrow> Diverges
         | Returns visibleRows \<Rightarrow>
             let this2 = setUpRenderCanvas ext this1 config viewPortSize (length visibleRows)
             in (case charRenderCanvas this2 of
                   None \<Rightarrow> Throws TypeError
                 | Some canvas \<Rightarrow>
                     (case writeLinesToGrid ext this2 (cellGrid canvas) visibleRows
                             (ligatureMarker this2) of
                        Throws e \<Rightarrow> Throws e
                      | Diverges \<Rightarrow> Diverges
                      | Returns grid \<Rightarrow>
                          Returns (this2\<lparr>charRenderCanvas := Some (canvas\<lparr>cellGrid := grid\<rparr>),
                                         renderPasses := renderPasses this2 + 1\<rparr>))))"

definition updateRows ::
  "Externals \<Rightarrow> CanvasTextLayer \<Rightarrow> LayerConfig \<Rightarrow> ViewPortSize \<Rightarrow> int \<Rightarrow> int
     \<Rightarrow> CanvasTextLayer outcome" where
  "updateRows ext this config viewPortSize firstR lastR = update ext this config viewPortSize"

text \<open>
  \<^verbatim>\<open>scrollRows\<close>: with a canvas, the first row of the last config is read (a
  \<^verbatim>\<open>TypeError\<close> if there is none) and the canvas scrolled when the distance is less than
  the height of its grid; then \<^verbatim>\<open>update\<close>.
\<close>

definition scrollRows ::
  "Externals \<Rightarrow> CanvasTextLayer \<Rightarrow> LayerConfig \<Rightarrow> ViewPortSize \<Rightarrow> CanvasTextLayer outcome" where
  "scrollRows ext this config viewPortSize =
     (case charRenderCanvas this of
        None \<Rightarrow> update ext this config viewPortSize
      | Some canvas \<Rightarrow>
          (case lastConfig this of
             None \<Rightarrow> Throws TypeError
           | Some lastCfg \<Rightarrow>
               if \<bar>firstRow config - firstRow lastCfg\<bar> < int (height (cellGrid canvas))
               then update ext
                      (this\<lparr>charRenderCanvas :=
                               Some (canvas\<lparr>cellGrid :=
                                 scrollVertical ext (cellGrid canvas)
                                   (firstRow config - firstRow lastCfg)\<rparr>)\<rparr>)
                      config viewPortSize
               else update ext this config viewPortSize))"

definition rerender :: "Externals \<Rightarrow> CanvasTextLayer \<Rightarrow> CanvasTextLayer outcome" where
  "rerender ext this =
     (case (lastConfig this, lastViewPortSize this) of
        (Some config, Some viewPortSize) \<Rightarrow> update ext this config viewPortSize
      | _ \<Rightarrow> Returns this)"

definition reduceMemory :: "CanvasTextLayer \<Rightarrow> CanvasTextLayer" where
  "reduceMemory this = deleteCanvasElement this"

text \<open>A sequence of calls of \<^verbatim>\<open>update\<close>, ended by the first that does not return.\<close>

fun updates ::
  "Externals \<Rightarrow> CanvasTextLayer \<Rightarrow> (LayerConfig \<times> ViewPortSize) list \<Rightarrow> CanvasTextLayer outcome" where
  "updates ext this [] = Returns this"
| "updates ext this ((config, viewPortSize) # calls) =
     (case update ext this config viewPortSize of
        Returns this' \<Rightarrow> updates ext this' calls
      | Throws e \<Rightarrow> Throws e
      | Diverges \<Rightarrow> Diverges)"

subsection \<open>The setters\<close>

definition setPalette :: "CanvasTextLayer \<Rightarrow> nat list \<Rightarrow> CanvasTextLayer" where
  "setPalette this p =
     (let this1 = this\<lparr>palette := p\<rparr>
      in case charRenderCanvas this1 of
           None \<Rightarrow> this1
         | Some canvas \<Rightarrow>
             this1\<lparr>charRenderCanvas :=
                     Some (canvas\<lparr>canvasOptions := (canvasOptions canvas)\<lparr>optPalette := p\<rparr>\<rparr>)\<rparr>)"

definition setFontFamily :: "CanvasTextLayer \<Rightarrow> string \<Rightarrow> CanvasTextLayer" where
  "setFontFamily this f = deleteCanvasElement (this\<lparr>fontFamily := f\<rparr>)"

definition setFontSizePx :: "CanvasTextLayer \<Rightarrow> real \<Rightarrow> CanvasTextLayer" where
  "setFontSizePx this px = deleteCanvasElement (this\<lparr>fontSizePx := px\<rparr>)"

definition setDevicePixelRatio :: "CanvasTextLayer \<Rightarrow> real \<Rightarrow> CanvasTextLayer" where
  "setDevicePixelRatio this r = deleteCanvasElement (this\<lparr>devicePixelRatio := r\<rparr>)"

definition setLigatureMarker :: "CanvasTextLayer \<Rightarrow> LigatureMarker option \<Rightarrow> CanvasTextLayer" where
  "setLigatureMarker this marker = deleteCanvasElement (this\<lparr>ligatureMarker := marker\<rparr>)"

definition setCursorStyle :: "CanvasTextLayer \<Rightarrow> CursorStyle \<Rightarrow> CanvasTextLayer" where
  "setCursorStyle this cs =
     (let this1 = this\<lparr>cursorStyle := cs\<rparr>
      in case charRenderCanvas this1 of
           Some canvas \<Rightarrow>
             this1\<lparr>charRenderCanvas :=
                     Some (canvas\<lparr>canvasOptions := (canvasOptions canvas)\<lparr>optCursorStyle := cs\<rparr>\<rparr>),
                   renderPasses := renderPasses this1 + 1\<rparr>
         | None \<Rightarrow> this1)"

definition setTransparentBackground :: "CanvasTextLayer \<Rightarrow> bool \<Rightarrow> CanvasTextLayer" where
  "setTransparentBackground this b = deleteCanvasElement (this\<lparr>transparentBackground := b\<rparr>)"

definition setSession :: "CanvasTextLayer \<Rightarrow> TerminalCanvasEditSession option \<Rightarrow> CanvasTextLayer" where
  "setSession this session = this\<lparr>editSession := session\<rparr>"

subsection \<open>\<^verbatim>\<open>mouseOver\<close>\<close>

text \<open>
  The first part of \<^verbatim>\<open>mouseOver\<close>: the assignment of the hovered URL. The local
  \<^verbatim>\<open>linkID\<close> is a number or, read outside the line's grid, \<^verbatim>\<open>undefined\<close> (\<open>None\<close>),
  which is not \<^verbatim>\<open>=== 0\<close>; hence the argument of \<open>getLinkURLByID\<close>.
\<close>

definition resolveHoveredURL :: "CanvasTextLayer \<Rightarrow> Position option \<Rightarrow> CanvasTextLayer outcome" where
  "resolveHoveredURL this pos =
     (case pos of
        None \<Rightarrow> Returns (this\<lparr>hoveredURL := None\<rparr>)
      | Some p \<Rightarrow>
          (case editSession this of
             None \<Rightarrow> Throws TypeError
           | Some session \<Rightarrow>
               (case getTerminalLine session (row p) of
                  None \<Rightarrow> Throws TypeError
                | Some line \<Rightarrow>
                    let lid = (if column p < width line then getLinkID line (column p) 0
                               else Some 0)
                    in if lid = Some 0 then Returns (this\<lparr>hoveredURL := None\<rparr>)
                       else Returns (this\<lparr>hoveredURL := getLinkURLByID line lid\<rparr>))))"

definition mouseOver ::
  "Externals \<Rightarrow> CanvasTextLayer \<Rightarrow> Position option \<Rightarrow> CanvasTextLayer outcome" where
  "mouseOver ext this pos =
     (let previousURL = hoveredURL this
      in case resolveHoveredURL this pos of
           Throws e \<Rightarrow> Throws e
         | Diverges \<Rightarrow> Diverges
         | Returns this1 \<Rightarrow>
             if previousURL \<noteq> hoveredURL this1 then rerender ext this1 else Returns this1)"


section \<open>Properties\<close>

subsection \<open>Predicates of the statements\<close>



text \<open>
  The states of the layer that the constructor and the calls of its methods give. A call
  that returns gives the state it returns. A call that throws leaves the object as the
  statements before the throw made it: with the config and the viewport size cached, with
  the canvas set up, with some rows of the grid written, with the hovered URL changed. The
  last four rules give these states, and more.
\<close>

inductive reachable :: "Externals \<Rightarrow> CanvasTextLayer \<Rightarrow> bool" for ext :: Externals where
  constructed: "reachable ext (newCanvasTextLayer ext options)"
| sessionSet: "reachable ext this \<Longrightarrow> reachable ext (setSession this session)"
| paletteSet: "reachable ext this \<Longrightarrow> reachable ext (setPalette this p)"
| fontFamilySet: "reachable ext this \<Longrightarrow> reachable ext (setFontFamily this f)"
| fontSizeSet: "reachable ext this \<Longrightarrow> reachable ext (setFontSizePx this px)"
| pixelRatioSet: "reachable ext this \<Longrightarrow> reachable ext (setDevicePixelRatio this r)"
| markerSet: "reachable ext this \<Longrightarrow> reachable ext (setLigatureMarker this marker)"
| cursorStyleSet: "reachable ext this \<Longrightarrow> reachable ext (setCursorStyle this cs)"
| transparencySet: "reachable ext this \<Longrightarrow> reachable ext (setTransparentBackground this b)"
| memoryReduced: "reachable ext this \<Longrightarrow> reachable ext (reduceMemory this)"
| updated:
    "reachable ext this \<Longrightarrow> update ext this config viewPortSize = Returns this'
       \<Longrightarrow> reachable ext this'"
| rowsUpdated:
    "reachable ext this \<Longrightarrow> updateRows ext this config viewPortSize firstR lastR = Returns this'
       \<Longrightarrow> reachable ext this'"
| scrolled:
    "reachable ext this \<Longrightarrow> scrollRows ext this config viewPortSize = Returns this'
       \<Longrightarrow> reachable ext this'"
| rerendered: "reachable ext this \<Longrightarrow> rerender ext this = Returns this' \<Longrightarrow> reachable ext this'"
| hovered: "reachable ext this \<Longrightarrow> mouseOver ext this pos = Returns this' \<Longrightarrow> reachable ext this'"
| configCached:
    "reachable ext this \<Longrightarrow>
       reachable ext (this\<lparr>lastConfig := Some config, lastViewPortSize := Some viewPortSize\<rparr>)"
| canvasSetUp:
    "reachable ext this \<Longrightarrow> reachable ext (setUpRenderCanvas ext this config viewPortSize n)"
| gridWritten:
    "reachable ext this \<Longrightarrow> charRenderCanvas this = Some canvas
       \<Longrightarrow> reachable ext (this\<lparr>charRenderCanvas := Some (canvas\<lparr>cellGrid := grid\<rparr>)\<rparr>)"
| hoverChanged: "reachable ext this \<Longrightarrow> reachable ext (this\<lparr>hoveredURL := url\<rparr>)"

subsection \<open>Example objects\<close>

definition exampleBlank :: Cell where
  "exampleBlank =
     \<lparr>codePoint = 32, fgClutIndex = 0, bgClutIndex = 0, style = 0, linkID = 0, ligature = 0\<rparr>"

definition exampleExternals :: Externals where
  "exampleExternals =
     \<lparr>ratioToFraction =
        (\<lambda>r. if r = 5 / 4 then (5, 4) else if r = 3 / 2 then (3, 2) else (\<lfloor>r\<rfloor>, 1)),
      PALETTE_BG_INDEX = 256,
      STYLE_MASK_HYPERLINK_HIGHLIGHT = 4096,
      blankCell = exampleBlank,
      isWindows = False,
      windowDevicePixelRatio = 1,
      newCellGrid =
        (\<lambda>opts. \<lparr>width = nat \<lfloor>usableWidthPx opts / 10\<rfloor>,
                  height = nat \<lfloor>usableHeightPx opts / 20\<rfloor>,
                  cells = (\<lambda>x y. exampleBlank\<lparr>codePoint := 88, bgClutIndex := 7\<rparr>)\<rparr>),
      scrollVertical =
        (\<lambda>grid delta. grid\<lparr>cells := (\<lambda>x y. cells grid x (nat (int y + delta)))\<rparr>)\<rparr>"

text \<open>A line of three cells: the first two belong to link 1, the third to no link.\<close>

definition exampleLine :: TerminalLine where
  "exampleLine =
     \<lparr>width = 3, height = 1,
      cells = (\<lambda>x y. exampleBlank\<lparr>codePoint := 97 + x, style := 1,
                                     linkID := (if x < 2 then 1 else 0)\<rparr>),
      getLinkIDByURL = (\<lambda>url. if url = ''http://a'' then 1 else 0),
      getLinkURLByID = (\<lambda>lid. if lid = Some 1 then Some ''http://a'' else None)\<rparr>"

text \<open>
  A session of three lines with the given fold lines; its lookup answers with the first
  fold line that ends at or after the row asked for.
\<close>

definition exampleSession :: "FoldLine list \<Rightarrow> TerminalCanvasEditSession" where
  "exampleSession folds =
     \<lparr>getTerminalLine = (\<lambda>r. if 0 \<le> r \<and> r < 3 then Some exampleLine else None),
      getLine = (\<lambda>r. if 0 \<le> r \<and> r < 3 then ''abc'' else []),
      getNextFoldLine = (\<lambda>docRow startFoldLine. find (\<lambda>f. docRow \<le> row (end' f)) folds)\<rparr>"

definition exampleFold :: FoldLine where
  "exampleFold = \<lparr>start = \<lparr>row = 2, column = 0\<rparr>, end' = \<lparr>row = 4, column = 0\<rparr>\<rparr>"

definition exampleOptions :: CanvasTextLayerOptions where
  "exampleOptions =
     \<lparr>optionsPalette = None, optionsFontFamily = ''monospace'', optionsFontSizePx = 12,
      optionsDevicePixelRatio = 1, optionsCursorStyle = BLOCK, optionsLigatureMarker = None,
      optionsTransparentBackground = False\<rparr>"

definition exampleLayer :: "FoldLine list \<Rightarrow> CanvasTextLayer" where
  "exampleLayer folds =
     setSession (newCanvasTextLayer exampleExternals exampleOptions) (Some (exampleSession folds))"

definition exampleConfig :: LayerConfig where
  "exampleConfig = \<lparr>firstRow = 0, lastRow = 5, charHeightPx = 20\<rparr>"

text \<open>Two cells are the same but for the ligature span.\<close>

definition sameCell :: "Cell \<Rightarrow> Cell \<Rightarrow> bool" where
  "sameCell c c' \<longleftrightarrow> c\<lparr>ligature := 0\<rparr> = c'\<lparr>ligature := 0\<rparr>"

text \<open>
  A ligature marker keeps to its task when it leaves the size of the grid alone and
  changes nothing in a cell of the grid but the ligature span.
\<close>

definition marksLigaturesOnly :: "LigatureMarker \<Rightarrow> bool" where
  "marksLigaturesOnly mark \<longleftrightarrow>
     (\<forall>grid y line.
        width (mark grid y line) = width grid \<and> height (mark grid y line) = height grid \<and>
        (\<forall>x y'. inGrid grid x y' \<longrightarrow> sameCell (cells (mark grid y line) x y') (cells grid x y')))"

fun markerKeepsCells :: "LigatureMarker option \<Rightarrow> bool" where
  "markerKeepsCells None = True"
| "markerKeepsCells (Some mark) = marksLigaturesOnly mark"

text \<open>The cell that fills the columns past the end of a line.\<close>

definition fillerCell :: "Externals \<Rightarrow> Cell" where
  "fillerCell ext = (blankCell ext)\<lparr>bgClutIndex := PALETTE_BG_INDEX ext\<rparr>"

text \<open>A marker for examples: every cell of the row gets the length of the text as span.\<close>

definition exampleMarker :: LigatureMarker where
  "exampleMarker grid y line =
     grid\<lparr>cells := (\<lambda>x y'. if y' = y then (cells grid x y')\<lparr>ligature := length line\<rparr>
                            else cells grid x y')\<rparr>"

text \<open>A grid of five columns and two rows that holds stale cells of link 1.\<close>

definition exampleGrid :: CharCellGrid where
  "exampleGrid =
     \<lparr>width = 5, height = 2,
      cells = (\<lambda>x y. exampleBlank\<lparr>codePoint := 88, bgClutIndex := 7, style := 4096,
                                     linkID := 1\<rparr>)\<rparr>"

definition exampleHoverLayer :: CanvasTextLayer where
  "exampleHoverLayer = (exampleLayer [])\<lparr>hoveredURL := Some ''http://a''\<rparr>"

text \<open>The example layer after a first \<^verbatim>\<open>update\<close> for a viewport 800 pixels wide.\<close>

definition exampleAfterUpdate :: CanvasTextLayer where
  "exampleAfterUpdate =
     (case update exampleExternals (exampleLayer []) exampleConfig \<lparr>widthPx = 800\<rparr> of
        Returns this' \<Rightarrow> this'
      | _ \<Rightarrow> exampleLayer [])"

text \<open>The width of the clip region after a call, when the call returns.\<close>

fun clipWidthAfter :: "CanvasTextLayer outcome \<Rightarrow> real option" where
  "clipWidthAfter (Returns this) = styleWidth (clipDiv this)"
| "clipWidthAfter _ = None"





subsection \<open>The pixel ratio pair\<close>

text \<open>
  C1. For a positive device pixel ratio \<open>r\<close> and a positive length \<open>L\<close>,
  \<^verbatim>\<open>_computeDevicePixelRatioPair\<close> returns \<open>(L, L)\<close> when \<open>r = 1\<close>. Otherwise, when
  \<^verbatim>\<open>ratioToFraction\<close> returns a fraction \<open>p / q\<close> equal to \<open>r\<close> with \<open>q\<close> positive,
  the screen length is the smallest multiple of \<open>q\<close> that is at least \<open>L\<close>, the render
  length is the screen length divided by \<open>q\<close> and multiplied by \<open>p\<close>, and the quotient
  of the render length by the screen length is \<open>r\<close>.
\<close>

theorem computeDevicePixelRatioPair_correct:
  assumes "0 < r" and "0 < L"
  shows "(r = 1 \<longrightarrow>
            computeDevicePixelRatioPair ext r L = \<lparr>screenLength = L, renderLength = L\<rparr>) \<and>
         (r \<noteq> 1 \<longrightarrow>
            (\<forall>p q. ratioToFraction ext r = (p, q) \<and> 0 < q \<and> r = of_int p / of_int q \<longrightarrow>
               (\<exists>k::int. screenLength (computeDevicePixelRatioPair ext r L) =
                           of_int k * of_int q) \<and>
               L \<le> screenLength (computeDevicePixelRatioPair ext r L) \<and>
               (\<forall>m::int. L \<le> of_int m * of_int q \<longrightarrow>
                  screenLength (computeDevicePixelRatioPair ext r L) \<le> of_int m * of_int q) \<and>
               renderLength (computeDevicePixelRatioPair ext r L) =
                 screenLength (computeDevicePixelRatioPair ext r L) / of_int q * of_int p \<and>
               renderLength (computeDevicePixelRatioPair ext r L) /
                 screenLength (computeDevicePixelRatioPair ext r L) = r))"
proof -
  have one: "computeDevicePixelRatioPair ext r L = \<lparr>screenLength = L, renderLength = L\<rparr>"
    if "r = 1"
    using that by (simp add: computeDevicePixelRatioPair_def)
  have frac:
    "(\<exists>k::int. screenLength (computeDevicePixelRatioPair ext r L) = of_int k * of_int q) \<and>
     L \<le> screenLength (computeDevicePixelRatioPair ext r L) \<and>
     (\<forall>m::int. L \<le> of_int m * of_int q \<longrightarrow>
        screenLength (computeDevicePixelRatioPair ext r L) \<le> of_int m * of_int q) \<and>
     renderLength (computeDevicePixelRatioPair ext r L) =
       screenLength (computeDevicePixelRatioPair ext r L) / of_int q * of_int p \<and>
     renderLength (computeDevicePixelRatioPair ext r L) /
       screenLength (computeDevicePixelRatioPair ext r L) = r"
    if ne: "r \<noteq> 1"
      and h: "ratioToFraction ext r = (p, q) \<and> 0 < q \<and> r = of_int p / of_int q"
    for p q :: int
  proof -
    let ?k = "\<lceil>L / of_int q\<rceil>"
    have q: "0 < (of_int q :: real)" using h by simp
    have rtf: "ratioToFraction ext r = (p, q)" using h by blast
    have sl: "screenLength (computeDevicePixelRatioPair ext r L) = of_int ?k * of_int q"
      using ne rtf by (simp add: computeDevicePixelRatioPair_def Let_def)
    have rl: "renderLength (computeDevicePixelRatioPair ext r L) =
                of_int ?k * of_int q / of_int q * of_int p"
      using ne rtf by (simp add: computeDevicePixelRatioPair_def Let_def)
    have kpos: "0 < ?k" using q \<open>0 < L\<close> by (simp add: ceiling_less_iff)
    have le: "L / of_int q \<le> of_int ?k" by (rule le_of_int_ceiling)
    have c1: "\<exists>k::int. screenLength (computeDevicePixelRatioPair ext r L) = of_int k * of_int q"
      using sl by blast
    have c2: "L \<le> screenLength (computeDevicePixelRatioPair ext r L)"
      using le pos_divide_le_eq [OF q, of L "of_int ?k"] by (simp only: sl)
    have c3: "screenLength (computeDevicePixelRatioPair ext r L) \<le> of_int m * of_int q"
      if "L \<le> of_int m * of_int q" for m :: int
    proof -
      from that have "L / of_int q \<le> of_int m" using q by (simp add: pos_divide_le_eq)
      then have "?k \<le> m" by (simp add: ceiling_le_iff)
      then have "(of_int ?k :: real) \<le> of_int m" by simp
      then show ?thesis using q by (simp add: sl)
    qed
    have c4: "renderLength (computeDevicePixelRatioPair ext r L) =
                screenLength (computeDevicePixelRatioPair ext r L) / of_int q * of_int p"
      by (simp add: sl rl)
    have c5: "renderLength (computeDevicePixelRatioPair ext r L) /
                screenLength (computeDevicePixelRatioPair ext r L) = r"
    proof -
      have req: "r = of_int p / of_int q" using h by blast
      have k0: "(of_int ?k :: real) \<noteq> 0"
      proof
        assume "(of_int ?k :: real) = 0"
        then have "?k = 0" by (simp only: of_int_eq_0_iff)
        with kpos show False by (simp only: less_irrefl)
      qed
      have q0: "(of_int q :: real) \<noteq> 0" using q by simp
      have "renderLength (computeDevicePixelRatioPair ext r L) /
              screenLength (computeDevicePixelRatioPair ext r L) =
            of_int ?k * of_int q / of_int q * of_int p / (of_int ?k * of_int q)"
        by (simp only: sl rl)
      also have "\<dots> = of_int p / of_int q"
        using k0 q0 by (simp add: field_simps)
      also have "\<dots> = r" by (simp only: req)
      finally show ?thesis .
    qed
    show ?thesis using c1 c2 c3 c4 c5 by blast
  qed
  show ?thesis using one frac by blast
qed

theorem computeDevicePixelRatioPair_witness:
  "computeDevicePixelRatioPair exampleExternals 1 7 = \<lparr>screenLength = 7, renderLength = 7\<rparr> \<and>
   ratioToFraction exampleExternals (5 / 4) = (5, 4) \<and>
   screenLength (computeDevicePixelRatioPair exampleExternals (5 / 4) 7) = 8 \<and>
   renderLength (computeDevicePixelRatioPair exampleExternals (5 / 4) 7) = 10 \<and>
   renderLength (computeDevicePixelRatioPair exampleExternals (5 / 4) 7) /
     screenLength (computeDevicePixelRatioPair exampleExternals (5 / 4) 7) = 5 / 4"
proof -
  have one: "computeDevicePixelRatioPair exampleExternals 1 7 =
               \<lparr>screenLength = 7, renderLength = 7\<rparr>"
    using computeDevicePixelRatioPair_correct [of 1 7 exampleExternals] by simp
  have rtf: "ratioToFraction exampleExternals (5 / 4) = (5, 4)"
    by (simp add: exampleExternals_def)
  have sl: "screenLength (computeDevicePixelRatioPair exampleExternals (5 / 4) 7) = 8"
    by (simp add: computeDevicePixelRatioPair_def exampleExternals_def)
  have "renderLength (computeDevicePixelRatioPair exampleExternals (5 / 4) 7) =
          screenLength (computeDevicePixelRatioPair exampleExternals (5 / 4) 7) / of_int 4 * of_int 5 \<and>
        renderLength (computeDevicePixelRatioPair exampleExternals (5 / 4) 7) /
          screenLength (computeDevicePixelRatioPair exampleExternals (5 / 4) 7) = 5 / 4"
    using computeDevicePixelRatioPair_correct [of "5 / 4" 7 exampleExternals] rtf by simp
  then show ?thesis using one rtf sl by simp
qed

subsection \<open>The visible rows\<close>






lemma editSession_exampleLayer: "editSession (exampleLayer folds) = Some (exampleSession folds)"
  by (simp add: exampleLayer_def setSession_def)

text \<open>
  C2. For a config with first row 0 and last row 5, \<^verbatim>\<open>_getVisibleRows\<close> returns
  \<open>[0, 1, 2, 3, 4, 5, 6]\<close> when the fold lookup reports no fold, and \<open>[0, 1, 2, 5, 6]\<close>
  when the lookup reports one fold line, of rows 2 to 4, and none after it.
\<close>

theorem getVisibleRows_examples:
  assumes "editSession this = Some session"
    and "firstRow config = 0" and "lastRow config = 5"
  shows "((\<forall>r after. getNextFoldLine session r after = None) \<longrightarrow>
            getVisibleRows this config = Returns [0, 1, 2, 3, 4, 5, 6]) \<and>
         (\<forall>f. getNextFoldLine session 0 None = Some f \<and>
              row (start f) = 2 \<and> row (end' f) = 4 \<and>
              getNextFoldLine session 5 (Some f) = None \<longrightarrow>
            getVisibleRows this config = Returns [0, 1, 2, 5, 6])"
  using assms by (auto simp add: getVisibleRows_def visibleRowsLoop.simps skipFold_def)

theorem getVisibleRows_examples_witness:
  "getVisibleRows (exampleLayer []) exampleConfig = Returns [0, 1, 2, 3, 4, 5, 6] \<and>
   getVisibleRows (exampleLayer [exampleFold]) exampleConfig = Returns [0, 1, 2, 5, 6]"
proof -
  have cfg: "firstRow exampleConfig = 0" "lastRow exampleConfig = 5"
    by (simp_all add: exampleConfig_def)
  have none: "\<forall>r after. getNextFoldLine (exampleSession []) r after = None"
    by (simp add: exampleSession_def)
  have one: "getNextFoldLine (exampleSession [exampleFold]) 0 None = Some exampleFold \<and>
             row (start exampleFold) = 2 \<and> row (end' exampleFold) = 4 \<and>
             getNextFoldLine (exampleSession [exampleFold]) 5 (Some exampleFold) = None"
    by (simp add: exampleSession_def exampleFold_def)
  show ?thesis
    using getVisibleRows_examples [OF editSession_exampleLayer cfg, of "[]"]
      getVisibleRows_examples [OF editSession_exampleLayer cfg, of "[exampleFold]"]
      none one
    by blast
qed




subsection \<open>Cells of the grid\<close>

lemma sameCell_refl: "sameCell c c"
  by (simp add: sameCell_def)

lemma sameCell_trans: "sameCell a b \<Longrightarrow> sameCell b c \<Longrightarrow> sameCell a c"
  by (simp add: sameCell_def)

lemma sameCell_fields:
  assumes "sameCell c c'"
  shows "codePoint c = codePoint c'" and "fgClutIndex c = fgClutIndex c'"
    and "bgClutIndex c = bgClutIndex c'" and "style c = style c'" and "linkID c = linkID c'"
  using assms by (cases c, cases c', simp add: sameCell_def)+

lemma setCell_dims: "width (setCell g x y c) = width g" "height (setCell g x y c) = height g"
  by (simp_all add: setCell_def)

lemma cells_setCell:
  "cells (setCell g x y c) x' y' = (if inGrid g x y \<and> x' = x \<and> y' = y then c else cells g x' y')"
  by (simp add: setCell_def)

lemma inGrid_setCell: "inGrid (setCell g x y c) x' y' = inGrid g x' y'"
  by (simp add: inGrid_def setCell_dims)

lemma fillCell_dims:
  "width (fillCell ext y i g) = width g" "height (fillCell ext y i g) = height g"
  by (simp_all add: fillCell_def setBgClutIndex_def clearCell_def setCell_dims split: option.split)

lemma cells_fillCell:
  "cells (fillCell ext y i g) x y' =
     (if inGrid g i y \<and> x = i \<and> y' = y then fillerCell ext else cells g x y')"
  by (simp add: fillCell_def fillerCell_def setBgClutIndex_def clearCell_def getCell_def
      inGrid_setCell cells_setCell)

lemma fold_fillCell_dims:
  "width (fold (fillCell ext y) [a..<b] g) = width g \<and>
   height (fold (fillCell ext y) [a..<b] g) = height g"
  by (induction b) (simp_all add: fillCell_dims)

lemma cells_fold_fillCell:
  "cells (fold (fillCell ext y) [a..<b] g) x y' =
     (if inGrid g x y \<and> a \<le> x \<and> x < b \<and> y' = y then fillerCell ext else cells g x y')"
proof (induction b)
  case 0
  then show ?case by simp
next
  case (Suc b)
  have "inGrid (fold (fillCell ext y) [a..<b] g) b y = inGrid g b y"
    by (simp add: inGrid_def fold_fillCell_dims)
  with Suc show ?case by (auto simp add: cells_fillCell less_Suc_eq)
qed

lemma highlightCell_dims:
  "width (highlightCell ext y lid i g) = width g"
  "height (highlightCell ext y lid i g) = height g"
  by (simp_all add: highlightCell_def setStyle_def setCell_dims split: option.split)

lemma cells_highlightCell:
  "cells (highlightCell ext y lid i g) x y' =
     (if inGrid g i y \<and> linkID (cells g i y) = lid \<and> x = i \<and> y' = y
      then (cells g i y)\<lparr>style := style (cells g i y) OR STYLE_MASK_HYPERLINK_HIGHLIGHT ext\<rparr>
      else cells g x y')"
  by (simp add: highlightCell_def setStyle_def getLinkID_def getStyle_def getCell_def cells_setCell)

lemma highlightLinkID_dims:
  "width (highlightLinkID ext g y a b lid) = width g \<and>
   height (highlightLinkID ext g y a b lid) = height g"
  unfolding highlightLinkID_def by (induction b) (simp_all add: highlightCell_dims)

lemma cells_highlightLinkID:
  "cells (highlightLinkID ext g y a b lid) x y' =
     (if inGrid g x y \<and> linkID (cells g x y) = lid \<and> a \<le> x \<and> x < b \<and> y' = y
      then (cells g x y)\<lparr>style := style (cells g x y) OR STYLE_MASK_HYPERLINK_HIGHLIGHT ext\<rparr>
      else cells g x y')"
  unfolding highlightLinkID_def
proof (induction b)
  case 0
  then show ?case by simp
next
  case (Suc b)
  have "inGrid (fold (highlightCell ext y lid) [a..<b] g) b y = inGrid g b y"
    using highlightLinkID_dims [of ext g y a b lid]
    by (simp add: inGrid_def highlightLinkID_def)
  with Suc show ?case by (auto simp add: cells_highlightCell less_Suc_eq)
qed

lemma fold_clearCell_dims:
  "width (fold (\<lambda>i g. clearCell blank g i y) [a..<b] g) = width g \<and>
   height (fold (\<lambda>i g. clearCell blank g i y) [a..<b] g) = height g"
  by (induction b) (simp_all add: clearCell_def setCell_dims)

lemma cells_fold_clearCell:
  "cells (fold (\<lambda>i g. clearCell blank g i y) [a..<b] g) x y' =
     (if inGrid g x y \<and> a \<le> x \<and> x < b \<and> y' = y then blank else cells g x y')"
proof (induction b)
  case 0
  then show ?case by simp
next
  case (Suc b)
  have "inGrid (fold (\<lambda>i g. clearCell blank g i y) [a..<b] g) b y = inGrid g b y"
    by (simp add: inGrid_def fold_clearCell_dims)
  with Suc show ?case by (auto simp add: clearCell_def cells_setCell less_Suc_eq)
qed

lemma pasteGrid_dims:
  "width (pasteGrid g src x y) = width g" "height (pasteGrid g src x y) = height g"
  by (simp_all add: pasteGrid_def)

subsection \<open>One line written to the grid\<close>

lemma writeLine_None_dims:
  "width (writeLine ext session hov None g d y) = width g \<and>
   height (writeLine ext session hov None g d y) = height g"
  by (simp add: writeLine_def Let_def fold_clearCell_dims fold_fillCell_dims
      highlightLinkID_dims pasteGrid_dims split: option.split)

lemma writeLine_Some:
  "writeLine ext session hov (Some mark) g d y =
     (case getTerminalLine session d of
        None \<Rightarrow> writeLine ext session hov None g d y
      | Some line \<Rightarrow> mark (writeLine ext session hov None g d y) y (getLine session d))"
  by (simp add: writeLine_def Let_def split: option.split)

lemma writeLine_dims:
  assumes "markerKeepsCells marker"
  shows "width (writeLine ext session hov marker g d y) = width g \<and>
         height (writeLine ext session hov marker g d y) = height g"
proof (cases marker)
  case None
  then show ?thesis by (simp add: writeLine_None_dims)
next
  case (Some mark)
  with assms have "marksLigaturesOnly mark" by simp
  then show ?thesis
    unfolding Some writeLine_Some marksLigaturesOnly_def
    by (simp add: writeLine_None_dims split: option.split)
qed

lemma writeLine_sameCell:
  assumes "markerKeepsCells marker" and "inGrid g x y'"
  shows "sameCell (cells (writeLine ext session hov marker g d y) x y')
           (cells (writeLine ext session hov None g d y) x y')"
proof (cases marker)
  case None
  then show ?thesis by (simp add: sameCell_refl)
next
  case (Some mark)
  with assms have m: "marksLigaturesOnly mark" by simp
  have "inGrid (writeLine ext session hov None g d y) x y'"
    using assms(2) by (simp add: inGrid_def writeLine_None_dims)
  with m show ?thesis
    unfolding Some writeLine_Some marksLigaturesOnly_def
    by (simp add: sameCell_refl split: option.split)
qed

lemma cells_writeLine_above:
  assumes "y' < y"
  shows "cells (writeLine ext session hov None g d y) x y' = cells g x y'"
  using assms
  by (simp add: writeLine_def Let_def cells_fold_clearCell cells_fold_fillCell
      cells_highlightLinkID pasteGrid_def split: option.split)

lemma cells_writeLine_fill:
  assumes "getTerminalLine session d = Some line"
    and "inGrid g x y" and "width line \<le> x"
  shows "cells (writeLine ext session hov None g d y) x y = fillerCell ext"
proof -
  have "x < width g" using assms(2) by (simp add: inGrid_def)
  then show ?thesis
    using assms
    by (simp add: writeLine_def Let_def cells_fold_fillCell highlightLinkID_dims pasteGrid_dims
        inGrid_def split: option.split)
qed

lemma cells_writeLine_line:
  assumes "getTerminalLine session d = Some line"
    and "inGrid g x y" and "x < width line" and "0 < height line"
  shows "cells (writeLine ext session hov None g d y) x y =
           (case hov of
              None \<Rightarrow> cells line x 0
            | Some url \<Rightarrow>
                if getLinkIDByURL line url \<noteq> 0 \<and> linkID (cells line x 0) = getLinkIDByURL line url
                then (cells line x 0)\<lparr>style := style (cells line x 0)
                                                OR STYLE_MASK_HYPERLINK_HIGHLIGHT ext\<rparr>
                else cells line x 0)"
proof -
  have p: "cells (pasteGrid g line 0 y) x y = cells line x 0"
    using assms by (simp add: pasteGrid_def inGrid_def)
  have ip: "inGrid (pasteGrid g line 0 y) x y"
    using assms(2) by (simp add: inGrid_def pasteGrid_dims)
  show ?thesis
    using assms(1,3) p ip
    by (simp add: writeLine_def Let_def cells_fold_fillCell cells_highlightLinkID
        highlightLinkID_dims pasteGrid_dims split: option.split)
qed

subsection \<open>All lines written to the grid\<close>

lemma writeLinesLoop_dims:
  assumes "markerKeepsCells marker"
  shows "width (writeLinesLoop ext session hov marker g rs c) = width g \<and>
         height (writeLinesLoop ext session hov marker g rs c) = height g"
proof (induction rs arbitrary: g c)
  case Nil
  then show ?case by simp
next
  case (Cons d rs)
  then show ?case by (simp add: Let_def writeLine_dims [OF assms])
qed

lemma writeLinesLoop_above:
  assumes mk: "markerKeepsCells marker"
  shows "y < c \<Longrightarrow> inGrid g x y \<Longrightarrow>
         sameCell (cells (writeLinesLoop ext session hov marker g rs c) x y) (cells g x y)"
proof (induction rs arbitrary: g c)
  case Nil
  then show ?case by (simp add: sameCell_refl)
next
  case (Cons d rs)
  let ?g = "writeLine ext session hov marker g d c"
  have one: "sameCell (cells ?g x y) (cells g x y)"
    using writeLine_sameCell [OF mk Cons.prems(2), of ext session hov d c]
      cells_writeLine_above [OF Cons.prems(1), of ext session hov g d x]
    by simp
  have ig: "inGrid ?g x y"
    using Cons.prems(2) writeLine_dims [OF mk, of ext session hov g d c]
    by (simp add: inGrid_def)
  show ?case
  proof (cases "c + 1 \<ge> height ?g")
    case True
    then show ?thesis using one by (simp add: Let_def)
  next
    case False
    have "y < c + 1" using Cons.prems(1) by simp
    from Cons.IH [OF this ig] have "sameCell
        (cells (writeLinesLoop ext session hov marker ?g rs (c + 1)) x y) (cells ?g x y)" .
    with one False show ?thesis by (simp add: Let_def) (rule sameCell_trans)
  qed
qed

lemma writeLinesLoop_row:
  assumes mk: "markerKeepsCells marker"
  shows "k < length rs \<Longrightarrow> inGrid g x (c + k) \<Longrightarrow>
         \<exists>g0. width g0 = width g \<and> height g0 = height g \<and>
           sameCell (cells (writeLinesLoop ext session hov marker g rs c) x (c + k))
             (cells (writeLine ext session hov None g0 (rs ! k) (c + k)) x (c + k))"
proof (induction rs arbitrary: g c k)
  case Nil
  then show ?case by simp
next
  case (Cons d rs)
  let ?g = "writeLine ext session hov marker g d c"
  have dims: "width ?g = width g" "height ?g = height g"
    using writeLine_dims [OF mk, of ext session hov g d c] by simp_all
  show ?case
  proof (cases k)
    case 0
    have ig: "inGrid g x c" using Cons.prems(2) 0 by simp
    have one: "sameCell (cells ?g x c) (cells (writeLine ext session hov None g d c) x c)"
      by (rule writeLine_sameCell [OF mk ig])
    have "sameCell (cells (writeLinesLoop ext session hov marker g (d # rs) c) x c)
            (cells ?g x c)"
    proof (cases "c + 1 \<ge> height ?g")
      case True
      then show ?thesis by (simp add: Let_def sameCell_refl)
    next
      case False
      have "inGrid ?g x c" using ig dims by (simp add: inGrid_def)
      from writeLinesLoop_above [OF mk _ this, of "c + 1" ext session hov rs] False
      show ?thesis by (simp add: Let_def)
    qed
    from sameCell_trans [OF this one] show ?thesis using 0 by auto
  next
    case (Suc j)
    have j: "j < length rs" using Cons.prems(1) Suc by simp
    have ig: "inGrid ?g x ((c + 1) + j)" using Cons.prems(2) Suc dims by (simp add: inGrid_def)
    have cont: "\<not> c + 1 \<ge> height ?g" using Cons.prems(2) Suc dims by (simp add: inGrid_def)
    from Cons.IH [OF j ig] obtain g0 where
      "width g0 = width ?g" "height g0 = height ?g"
      "sameCell (cells (writeLinesLoop ext session hov marker ?g rs (c + 1)) x ((c + 1) + j))
         (cells (writeLine ext session hov None g0 (rs ! j) ((c + 1) + j)) x ((c + 1) + j))"
      by blast
    with cont dims Suc show ?thesis by (auto simp add: Let_def)
  qed
qed

text \<open>
  C4. After \<^verbatim>\<open>_writeLinesToGrid\<close>, with a ligature marker that changes nothing but
  ligature spans (or with none), every painted row \<open>k\<close> of the grid whose terminal line is
  present and narrower than the grid holds, in every column from the width of the line to
  the width of the grid, the blank cell of \<^verbatim>\<open>clearCell\<close> with the background palette
  index \<^verbatim>\<open>PALETTE_BG_INDEX\<close>, whatever the grid held before.
\<close>

theorem writeLinesToGrid_fills_trailing_columns:
  assumes "markerKeepsCells marker"
    and "editSession this = Some session"
    and "k < length rows" and "k < height grid"
    and "getTerminalLine session (rows ! k) = Some line"
    and "width line < width grid"
    and "width line \<le> i" and "i < width grid"
  shows "\<exists>grid' c. writeLinesToGrid ext this grid rows marker = Returns grid' \<and>
           getCell grid' i k = Some c \<and>
           bgClutIndex c = PALETTE_BG_INDEX ext \<and>
           codePoint c = codePoint (blankCell ext) \<and>
           fgClutIndex c = fgClutIndex (blankCell ext) \<and>
           style c = style (blankCell ext) \<and>
           linkID c = linkID (blankCell ext)"
proof -
  let ?g = "writeLinesLoop ext session (hoveredURL this) marker grid rows 0"
  have ne: "rows \<noteq> []" using assms(3) by auto
  have ret: "writeLinesToGrid ext this grid rows marker = Returns ?g"
    using ne assms(2) by (simp add: writeLinesToGrid_def)
  have ig: "inGrid grid i (0 + k)" using assms(4,8) by (simp add: inGrid_def)
  from writeLinesLoop_row [OF assms(1,3) ig, of ext session "hoveredURL this"]
  obtain g0 where g0: "width g0 = width grid" "height g0 = height grid"
    and same: "sameCell (cells ?g i k)
                 (cells (writeLine ext session (hoveredURL this) None g0 (rows ! k) k) i k)"
    by auto
  have "inGrid g0 i k" using ig g0 by (simp add: inGrid_def)
  from cells_writeLine_fill [OF assms(5) this assms(7)] same
  have f: "sameCell (cells ?g i k) (fillerCell ext)" by simp
  have "inGrid ?g i k"
    using ig writeLinesLoop_dims [OF assms(1), of ext session "hoveredURL this" grid rows 0]
    by (simp add: inGrid_def)
  then have "getCell ?g i k = Some (cells ?g i k)" by (simp add: getCell_def)
  with ret sameCell_fields [OF f] show ?thesis by (simp add: fillerCell_def)
qed
lemma marksLigaturesOnly_example: "markerKeepsCells (Some exampleMarker)"
  by (simp add: marksLigaturesOnly_def exampleMarker_def sameCell_def)

lemma editSession_exampleHoverLayer: "editSession exampleHoverLayer = Some (exampleSession [])"
  by (simp add: exampleHoverLayer_def editSession_exampleLayer)

lemma getTerminalLine_example: "getTerminalLine (exampleSession []) ([0, 7] ! 0) = Some exampleLine"
  by (simp add: exampleSession_def)

theorem writeLinesToGrid_fills_trailing_columns_witness:
  "markerKeepsCells (Some exampleMarker) \<and>
   width exampleLine < width exampleGrid \<and>
   bgClutIndex (cells exampleGrid 4 0) = 7 \<and>
   (\<exists>grid' c. writeLinesToGrid exampleExternals exampleHoverLayer exampleGrid [0, 7]
                 (Some exampleMarker) = Returns grid' \<and>
      getCell grid' 4 0 = Some c \<and> bgClutIndex c = 256 \<and> codePoint c = 32 \<and> linkID c = 0)"
proof -
  have w: "width exampleLine < width exampleGrid"
    by (simp add: exampleLine_def exampleGrid_def)
  have st: "bgClutIndex (cells exampleGrid 4 0) = 7"
    by (simp add: exampleGrid_def)
  have k: "PALETTE_BG_INDEX exampleExternals = 256"
    "codePoint (blankCell exampleExternals) = 32" "linkID (blankCell exampleExternals) = 0"
    by (simp_all add: exampleExternals_def exampleBlank_def)
  from writeLinesToGrid_fills_trailing_columns
    [where grid = exampleGrid and i = 4 and ext = exampleExternals,
     OF marksLigaturesOnly_example editSession_exampleHoverLayer _ _
        getTerminalLine_example w]
  obtain grid' c where
    "writeLinesToGrid exampleExternals exampleHoverLayer exampleGrid [0, 7]
       (Some exampleMarker) = Returns grid'"
    "getCell grid' 4 0 = Some c"
    "bgClutIndex c = PALETTE_BG_INDEX exampleExternals"
    "codePoint c = codePoint (blankCell exampleExternals)"
    "linkID c = linkID (blankCell exampleExternals)"
    by (auto simp add: exampleGrid_def exampleLine_def)
  with k have "\<exists>grid' c. writeLinesToGrid exampleExternals exampleHoverLayer exampleGrid [0, 7]
                    (Some exampleMarker) = Returns grid' \<and>
          getCell grid' 4 0 = Some c \<and> bgClutIndex c = 256 \<and> codePoint c = 32 \<and> linkID c = 0"
    by simp
  with w st marksLigaturesOnly_example show ?thesis by blast
qed

lemma highlight_bit_set: "(a OR m) AND m = (m :: 32 word)"
  by (simp add: bit_eq_iff bit_and_iff bit_or_iff)

text \<open>
  C5. During \<^verbatim>\<open>_writeLinesToGrid\<close>, with a ligature marker that changes nothing but
  ligature spans (or with none): when a hovered URL is set and the terminal line of a
  painted row \<open>k\<close> resolves it to a link identifier other than 0, then in every column of
  that row below the width of the line (and of the grid) the cell is the cell of the line,
  with the bit \<^verbatim>\<open>STYLE_MASK_HYPERLINK_HIGHLIGHT\<close> added to its style when its link
  identifier is the resolved one, and with its style unchanged when it is another.
\<close>

theorem writeLinesToGrid_highlights_link:
  assumes "markerKeepsCells marker"
    and "editSession this = Some session"
    and "k < length rows" and "k < height grid"
    and "getTerminalLine session (rows ! k) = Some line"
    and "0 < height line"
    and "hoveredURL this = Some url"
    and "getLinkIDByURL line url \<noteq> 0"
    and "i < width line" and "i < width grid"
  shows "\<exists>grid' c. writeLinesToGrid ext this grid rows marker = Returns grid' \<and>
           getCell grid' i k = Some c \<and>
           linkID c = linkID (cells line i 0) \<and>
           (linkID c = getLinkIDByURL line url \<longrightarrow>
              style c = style (cells line i 0) OR STYLE_MASK_HYPERLINK_HIGHLIGHT ext \<and>
              style c AND STYLE_MASK_HYPERLINK_HIGHLIGHT ext = STYLE_MASK_HYPERLINK_HIGHLIGHT ext) \<and>
           (linkID c \<noteq> getLinkIDByURL line url \<longrightarrow> style c = style (cells line i 0))"
proof -
  let ?g = "writeLinesLoop ext session (hoveredURL this) marker grid rows 0"
  let ?src = "cells line i 0"
  let ?new = "if linkID ?src = getLinkIDByURL line url
              then ?src\<lparr>style := style ?src OR STYLE_MASK_HYPERLINK_HIGHLIGHT ext\<rparr> else ?src"
  have ne: "rows \<noteq> []" using assms(3) by auto
  have ret: "writeLinesToGrid ext this grid rows marker = Returns ?g"
    using ne assms(2) by (simp add: writeLinesToGrid_def)
  have ig: "inGrid grid i (0 + k)" using assms(4,10) by (simp add: inGrid_def)
  from writeLinesLoop_row [OF assms(1,3) ig, of ext session "hoveredURL this"]
  obtain g0 where g0: "width g0 = width grid" "height g0 = height grid"
    and same: "sameCell (cells ?g i k)
                 (cells (writeLine ext session (hoveredURL this) None g0 (rows ! k) k) i k)"
    by auto
  have "inGrid g0 i k" using ig g0 by (simp add: inGrid_def)
  from cells_writeLine_line [OF assms(5) this assms(9,6), of ext "hoveredURL this"] same
  have f: "sameCell (cells ?g i k) ?new" using assms(7,8) by simp
  have "inGrid ?g i k"
    using ig writeLinesLoop_dims [OF assms(1), of ext session "hoveredURL this" grid rows 0]
    by (simp add: inGrid_def)
  then have get: "getCell ?g i k = Some (cells ?g i k)" by (simp add: getCell_def)
  have l: "linkID (cells ?g i k) = linkID ?src"
    using sameCell_fields(5) [OF f] by (simp split: if_splits)
  have s: "style (cells ?g i k) = style ?new" by (rule sameCell_fields(4) [OF f])
  show ?thesis using ret get l s by (simp add: highlight_bit_set)
qed

lemma getLinkIDByURL_example: "getLinkIDByURL exampleLine ''http://a'' \<noteq> 0"
  by (simp add: exampleLine_def)

theorem writeLinesToGrid_highlights_link_witness:
  "hoveredURL exampleHoverLayer = Some ''http://a'' \<and>
   getLinkIDByURL exampleLine ''http://a'' = 1 \<and>
   (\<exists>grid' c. writeLinesToGrid exampleExternals exampleHoverLayer exampleGrid [0, 7]
                 (Some exampleMarker) = Returns grid' \<and>
      getCell grid' 0 0 = Some c \<and> linkID c = 1 \<and> style c = 4097) \<and>
   (\<exists>grid' c. writeLinesToGrid exampleExternals exampleHoverLayer exampleGrid [0, 7]
                 (Some exampleMarker) = Returns grid' \<and>
      getCell grid' 2 0 = Some c \<and> linkID c = 0 \<and> style c = 1)"
proof -
  have hov: "hoveredURL exampleHoverLayer = Some ''http://a''"
    by (simp add: exampleHoverLayer_def)
  have lid: "getLinkIDByURL exampleLine ''http://a'' = 1"
    by (simp add: exampleLine_def)
  have h: "0 < height exampleLine" by (simp add: exampleLine_def)
  have c0: "linkID (cells exampleLine 0 0) = 1" "style (cells exampleLine 0 0) = 1"
    and c2: "linkID (cells exampleLine 2 0) = 0" "style (cells exampleLine 2 0) = 1"
    by (simp_all add: exampleLine_def exampleBlank_def)
  have m: "STYLE_MASK_HYPERLINK_HIGHLIGHT exampleExternals = 4096"
    by (simp add: exampleExternals_def)
  have dims: "0 < length [0, 7 :: int]" "0 < height exampleGrid"
    "0 < width exampleLine" "0 < width exampleGrid"
    "2 < width exampleLine" "2 < width exampleGrid"
    by (simp_all add: exampleGrid_def exampleLine_def)
  from writeLinesToGrid_highlights_link
    [where grid = exampleGrid and i = 0 and ext = exampleExternals,
     OF marksLigaturesOnly_example editSession_exampleHoverLayer dims(1,2)
        getTerminalLine_example h hov getLinkIDByURL_example dims(3,4)]
  have a: "\<exists>grid' c. writeLinesToGrid exampleExternals exampleHoverLayer exampleGrid [0, 7]
                 (Some exampleMarker) = Returns grid' \<and>
      getCell grid' 0 0 = Some c \<and> linkID c = 1 \<and> style c = 4097"
    by (auto simp add: c0 lid m)
  from writeLinesToGrid_highlights_link
    [where grid = exampleGrid and i = 2 and ext = exampleExternals,
     OF marksLigaturesOnly_example editSession_exampleHoverLayer dims(1,2)
        getTerminalLine_example h hov getLinkIDByURL_example dims(5,6)]
  have b: "\<exists>grid' c. writeLinesToGrid exampleExternals exampleHoverLayer exampleGrid [0, 7]
                 (Some exampleMarker) = Returns grid' \<and>
      getCell grid' 2 0 = Some c \<and> linkID c = 0 \<and> style c = 1"
    by (auto simp add: c2 lid m)
  show ?thesis using hov lid a b by blast
qed

subsection \<open>The render canvas\<close>

text \<open>
  The double product at work: where the exact product is a double, it is the product; 100
  times 10.05 and 5 times 16.8 are rounded, the first to a double above 1005, the second
  down to 84.
\<close>

lemma numberTimes_examples:
  "numberTimes 7 20 = 140" "numberTimes 7 (3 / 2) = 21 / 2" "numberTimes 12 20 = 240"
  "numberTimes 800 1 = 800" "numberTimes 1000 1 = 1000" "numberTimes 240 1 = 240"
  "numberTimes 12 1 = 12" "numberTimes 800 (5 / 4) = 1000" "numberTimes 240 (5 / 4) = 300"
  "numberTimes 12 (5 / 4) = 15"
  by code_simp+

lemma numberTimes_rounds:
  "\<lceil>numberTimes 100 (201 / 20)\<rceil> = 1006" "\<lceil>100 * (201 / 20 :: real)\<rceil> = 1005"
  "\<lceil>numberTimes 5 (84 / 5)\<rceil> = 84" "\<lceil>toDouble (84 / 5) * 5\<rceil> = 85"
  by code_simp+

lemma getVisibleRows_session:
  "editSession this' = editSession this \<Longrightarrow> getVisibleRows this' config = getVisibleRows this config"
  by (simp add: getVisibleRows_def)

lemma getVisibleRows_Returns_session:
  "getVisibleRows this config = Returns rows \<Longrightarrow> \<exists>session. editSession this = Some session"
  by (cases "editSession this") (simp_all add: getVisibleRows_def)

lemma provisionCanvas_fields:
  "charRenderCanvas (provisionCanvas ext this config w h n) \<noteq> None"
  "map_option canvasId (charRenderCanvas (provisionCanvas ext this config w h n)) =
     Some (canvasesCreated this)"
  "canvasesCreated (provisionCanvas ext this config w h n) = canvasesCreated this + 1"
  "disposed (provisionCanvas ext this config w h n) = disposed this"
  "canvasHeightCssPx (provisionCanvas ext this config w h n) =
     of_int \<lceil>numberTimes (of_int (round (numberTimes (of_nat n) (3 / 2))) + 1)
                     (charHeightPx config)\<rceil>"
  "canvasWidthCssPx (provisionCanvas ext this config w h n) = max w (currentCanvasRawWidthPx this)"
  "currentCanvasRawWidthPx (provisionCanvas ext this config w h n) =
     max w (currentCanvasRawWidthPx this)"
  "styleWidth (clipDiv (provisionCanvas ext this config w h n)) =
     Some (max w (currentCanvasRawWidthPx this))"
  "styleHeight (clipDiv (provisionCanvas ext this config w h n)) = Some h"
  "editSession (provisionCanvas ext this config w h n) = editSession this"
  "hoveredURL (provisionCanvas ext this config w h n) = hoveredURL this"
  "ligatureMarker (provisionCanvas ext this config w h n) = ligatureMarker this"
  "lastConfig (provisionCanvas ext this config w h n) = lastConfig this"
  "lastViewPortSize (provisionCanvas ext this config w h n) = lastViewPortSize this"
  "renderPasses (provisionCanvas ext this config w h n) = renderPasses this"
  by (simp_all add: provisionCanvas_def createCanvas_def setupClipping_def Let_def
      PROVISION_HEIGHT_FACTOR_def)

lemma deleteCanvasElement_fields:
  "charRenderCanvas (deleteCanvasElement this) = None"
  "canvasesCreated (deleteCanvasElement this) = canvasesCreated this"
  "canvasWidthCssPx (deleteCanvasElement this) = canvasWidthCssPx this"
  "canvasHeightCssPx (deleteCanvasElement this) = canvasHeightCssPx this"
  "currentCanvasRawWidthPx (deleteCanvasElement this) = currentCanvasRawWidthPx this"
  "editSession (deleteCanvasElement this) = editSession this"
  "hoveredURL (deleteCanvasElement this) = hoveredURL this"
  "ligatureMarker (deleteCanvasElement this) = ligatureMarker this"
  "lastConfig (deleteCanvasElement this) = lastConfig this"
  "lastViewPortSize (deleteCanvasElement this) = lastViewPortSize this"
  "renderPasses (deleteCanvasElement this) = renderPasses this"
  "disposed (deleteCanvasElement this) =
     (case charRenderCanvas this of None \<Rightarrow> disposed this
      | Some canvas \<Rightarrow> disposed this @ [canvasId canvas])"
  by (simp_all add: deleteCanvasElement_def split: option.split)

lemma setupClipping_fields:
  "charRenderCanvas (setupClipping this w h) = charRenderCanvas this"
  "canvasesCreated (setupClipping this w h) = canvasesCreated this"
  "canvasWidthCssPx (setupClipping this w h) = canvasWidthCssPx this"
  "canvasHeightCssPx (setupClipping this w h) = canvasHeightCssPx this"
  "currentCanvasRawWidthPx (setupClipping this w h) = currentCanvasRawWidthPx this"
  "editSession (setupClipping this w h) = editSession this"
  "hoveredURL (setupClipping this w h) = hoveredURL this"
  "ligatureMarker (setupClipping this w h) = ligatureMarker this"
  "lastConfig (setupClipping this w h) = lastConfig this"
  "lastViewPortSize (setupClipping this w h) = lastViewPortSize this"
  "renderPasses (setupClipping this w h) = renderPasses this"
  "disposed (setupClipping this w h) = disposed this"
  "styleWidth (clipDiv (setupClipping this w h)) = Some w"
  "styleHeight (clipDiv (setupClipping this w h)) = Some h"
  by (simp_all add: setupClipping_def)

text \<open>The canvas is kept: it exists and its allocated size covers the required size.\<close>

lemma setUpRenderCanvas_keep:
  assumes "charRenderCanvas this = Some canvas"
    and "widthPx viewPortSize \<le> canvasWidthCssPx this"
    and "of_int \<lceil>numberTimes (of_nat n) (charHeightPx config)\<rceil> \<le> canvasHeightCssPx this"
  shows "setUpRenderCanvas ext this config viewPortSize n =
           setupClipping this (currentCanvasRawWidthPx this)
             (of_int \<lceil>numberTimes (of_nat n) (charHeightPx config)\<rceil>)"
  using assms by (simp add: setUpRenderCanvas_def Let_def setupClipping_fields)

text \<open>A canvas is allocated: none exists, or the one that exists is too small.\<close>

lemma setUpRenderCanvas_allocate:
  assumes "charRenderCanvas this = None \<or>
           canvasWidthCssPx this < widthPx viewPortSize \<or>
           canvasHeightCssPx this < of_int \<lceil>numberTimes (of_nat n) (charHeightPx config)\<rceil>"
  shows "\<exists>that. setUpRenderCanvas ext this config viewPortSize n =
           provisionCanvas ext that config (widthPx viewPortSize)
             (of_int \<lceil>numberTimes (of_nat n) (charHeightPx config)\<rceil>) n \<and>
           charRenderCanvas that = None \<and>
           canvasesCreated that = canvasesCreated this \<and>
           currentCanvasRawWidthPx that = currentCanvasRawWidthPx this \<and>
           editSession that = editSession this \<and> hoveredURL that = hoveredURL this \<and>
           ligatureMarker that = ligatureMarker this \<and> lastConfig that = lastConfig this \<and>
           lastViewPortSize that = lastViewPortSize this \<and>
           renderPasses that = renderPasses this \<and>
           disposed that =
             (case charRenderCanvas this of None \<Rightarrow> disposed this
              | Some canvas \<Rightarrow> disposed this @ [canvasId canvas])"
proof (cases "charRenderCanvas this")
  case None
  then have "setUpRenderCanvas ext this config viewPortSize n =
               provisionCanvas ext this config (widthPx viewPortSize)
                 (of_int \<lceil>numberTimes (of_nat n) (charHeightPx config)\<rceil>) n"
    by (simp add: setUpRenderCanvas_def Let_def)
  with None show ?thesis by auto
next
  case (Some canvas)
  let ?h = "of_int \<lceil>numberTimes (of_nat n) (charHeightPx config)\<rceil> :: real"
  let ?that = "deleteCanvasElement (setupClipping this (currentCanvasRawWidthPx this) ?h)"
  have "setUpRenderCanvas ext this config viewPortSize n =
          provisionCanvas ext ?that config (widthPx viewPortSize) ?h n"
    using assms Some by (auto simp add: setUpRenderCanvas_def Let_def setupClipping_fields)
  then show ?thesis
    using Some by (auto simp add: deleteCanvasElement_fields setupClipping_fields)
qed

lemma setUpRenderCanvas_frame:
  "charRenderCanvas (setUpRenderCanvas ext this config viewPortSize n) \<noteq> None \<and>
   editSession (setUpRenderCanvas ext this config viewPortSize n) = editSession this \<and>
   hoveredURL (setUpRenderCanvas ext this config viewPortSize n) = hoveredURL this \<and>
   ligatureMarker (setUpRenderCanvas ext this config viewPortSize n) = ligatureMarker this \<and>
   lastConfig (setUpRenderCanvas ext this config viewPortSize n) = lastConfig this \<and>
   lastViewPortSize (setUpRenderCanvas ext this config viewPortSize n) = lastViewPortSize this \<and>
   renderPasses (setUpRenderCanvas ext this config viewPortSize n) = renderPasses this \<and>
   currentCanvasRawWidthPx this \<le>
     currentCanvasRawWidthPx (setUpRenderCanvas ext this config viewPortSize n)"
proof (cases "\<exists>canvas. charRenderCanvas this = Some canvas \<and>
                widthPx viewPortSize \<le> canvasWidthCssPx this \<and>
                of_int \<lceil>numberTimes (of_nat n) (charHeightPx config)\<rceil> \<le> canvasHeightCssPx this")
  case True
  then obtain canvas where "charRenderCanvas this = Some canvas"
    "widthPx viewPortSize \<le> canvasWidthCssPx this"
    "of_int \<lceil>numberTimes (of_nat n) (charHeightPx config)\<rceil> \<le> canvasHeightCssPx this"
    by blast
  from setUpRenderCanvas_keep [OF this] \<open>charRenderCanvas this = Some canvas\<close>
  show ?thesis by (simp add: setupClipping_fields)
next
  case False
  then have "charRenderCanvas this = None \<or>
             canvasWidthCssPx this < widthPx viewPortSize \<or>
             canvasHeightCssPx this < of_int \<lceil>numberTimes (of_nat n) (charHeightPx config)\<rceil>"
    by (cases "charRenderCanvas this") (auto simp add: not_le)
  from setUpRenderCanvas_allocate [OF this, of ext]
  obtain that where
    "setUpRenderCanvas ext this config viewPortSize n =
       provisionCanvas ext that config (widthPx viewPortSize)
         (of_int \<lceil>numberTimes (of_nat n) (charHeightPx config)\<rceil>) n"
    "currentCanvasRawWidthPx that = currentCanvasRawWidthPx this"
    "editSession that = editSession this" "hoveredURL that = hoveredURL this"
    "ligatureMarker that = ligatureMarker this" "lastConfig that = lastConfig this"
    "lastViewPortSize that = lastViewPortSize this" "renderPasses that = renderPasses this"
    by blast
  then show ?thesis by (simp add: provisionCanvas_fields)
qed

text \<open>What \<^verbatim>\<open>update\<close> returns once the visible rows are known.\<close>

lemma update_Returns:
  assumes rows: "getVisibleRows this config = Returns rows"
  shows "\<exists>that canvas grid.
           that = setUpRenderCanvas ext
                    (this\<lparr>lastConfig := Some config, lastViewPortSize := Some viewPortSize\<rparr>)
                    config viewPortSize (length rows) \<and>
           charRenderCanvas that = Some canvas \<and>
           update ext this config viewPortSize =
             Returns (that\<lparr>charRenderCanvas := Some (canvas\<lparr>cellGrid := grid\<rparr>),
                          renderPasses := renderPasses that + 1\<rparr>)"
proof -
  let ?this1 = "this\<lparr>lastConfig := Some config, lastViewPortSize := Some viewPortSize\<rparr>"
  let ?that = "setUpRenderCanvas ext ?this1 config viewPortSize (length rows)"
  have r1: "getVisibleRows ?this1 config = Returns rows"
    using rows getVisibleRows_session [of ?this1 this config] by simp
  from getVisibleRows_Returns_session [OF rows]
  obtain session where "editSession this = Some session" by blast
  then have s: "editSession ?that = Some session"
    using setUpRenderCanvas_frame [of ext ?this1 config viewPortSize "length rows"] by simp
  obtain canvas where c: "charRenderCanvas ?that = Some canvas"
    using setUpRenderCanvas_frame [of ext ?this1 config viewPortSize "length rows"] by auto
  have "\<exists>grid. writeLinesToGrid ext ?that (cellGrid canvas) rows (ligatureMarker ?that) =
                 Returns grid"
    using s by (simp add: writeLinesToGrid_def)
  then obtain grid where
    w: "writeLinesToGrid ext ?that (cellGrid canvas) rows (ligatureMarker ?that) = Returns grid"
    by blast
  have "update ext this config viewPortSize =
          Returns (?that\<lparr>charRenderCanvas := Some (canvas\<lparr>cellGrid := grid\<rparr>),
                        renderPasses := renderPasses ?that + 1\<rparr>)"
    using r1 c w by (simp add: update_def Let_def)
  with c show ?thesis by blast
qed
lemma getVisibleRows_exampleLayer:
  "getVisibleRows (exampleLayer []) exampleConfig = Returns [0, 1, 2, 3, 4, 5, 6]"
  by (simp add: exampleConfig_def exampleLayer_def setSession_def exampleSession_def
      getVisibleRows_def visibleRowsLoop.simps skipFold_def)

lemma exampleAfterUpdate_fields:
  "update exampleExternals (exampleLayer []) exampleConfig \<lparr>widthPx = 800\<rparr> =
     Returns exampleAfterUpdate"
  "map_option canvasId (charRenderCanvas exampleAfterUpdate) = Some 0"
  "canvasWidthCssPx exampleAfterUpdate = 800"
  "canvasHeightCssPx exampleAfterUpdate = 240"
  "currentCanvasRawWidthPx exampleAfterUpdate = 800"
  "canvasesCreated exampleAfterUpdate = 1"
  "editSession exampleAfterUpdate = Some (exampleSession [])"
  "styleWidth (clipDiv exampleAfterUpdate) = Some 800"
  "styleHeight (clipDiv exampleAfterUpdate) = Some 140"
proof -
  let ?this1 = "(exampleLayer [])\<lparr>lastConfig := Some exampleConfig,
                                   lastViewPortSize := Some \<lparr>widthPx = 800\<rparr>\<rparr>"
  from update_Returns [OF getVisibleRows_exampleLayer, of exampleExternals "\<lparr>widthPx = 800\<rparr>"]
  obtain that canvas grid where
    that: "that = setUpRenderCanvas exampleExternals ?this1 exampleConfig \<lparr>widthPx = 800\<rparr>
                    (length [0, 1, 2, 3, 4, 5, 6 :: int])"
    and c: "charRenderCanvas that = Some canvas"
    and u: "update exampleExternals (exampleLayer []) exampleConfig \<lparr>widthPx = 800\<rparr> =
              Returns (that\<lparr>charRenderCanvas := Some (canvas\<lparr>cellGrid := grid\<rparr>),
                           renderPasses := renderPasses that + 1\<rparr>)"
    by blast
  have e: "exampleAfterUpdate = that\<lparr>charRenderCanvas := Some (canvas\<lparr>cellGrid := grid\<rparr>),
                                       renderPasses := renderPasses that + 1\<rparr>"
    by (simp add: exampleAfterUpdate_def u)
  have none: "charRenderCanvas ?this1 = None"
    by (simp add: exampleLayer_def setSession_def newCanvasTextLayer_def)
  have len: "length [0, 1, 2, 3, 4, 5, 6 :: int] = 7" by simp
  have "that = provisionCanvas exampleExternals ?this1 exampleConfig 800 140 7"
    unfolding that len using none
    by (simp add: setUpRenderCanvas_def Let_def exampleConfig_def numberTimes_examples)
  then have f: "map_option canvasId (charRenderCanvas that) = Some 0"
    "canvasWidthCssPx that = 800" "canvasHeightCssPx that = 240"
    "currentCanvasRawWidthPx that = 800" "canvasesCreated that = 1"
    "editSession that = Some (exampleSession [])"
    "styleWidth (clipDiv that) = Some 800" "styleHeight (clipDiv that) = Some 140"
    by (simp_all add: provisionCanvas_fields exampleLayer_def setSession_def
        newCanvasTextLayer_def exampleConfig_def round_def numberTimes_examples)
  show "update exampleExternals (exampleLayer []) exampleConfig \<lparr>widthPx = 800\<rparr> =
          Returns exampleAfterUpdate"
    using u e by simp
  show "map_option canvasId (charRenderCanvas exampleAfterUpdate) = Some 0"
    using f(1) c by (simp add: e)
  show "canvasWidthCssPx exampleAfterUpdate = 800" using f by (simp add: e)
  show "canvasHeightCssPx exampleAfterUpdate = 240" using f by (simp add: e)
  show "currentCanvasRawWidthPx exampleAfterUpdate = 800" using f by (simp add: e)
  show "canvasesCreated exampleAfterUpdate = 1" using f by (simp add: e)
  show "editSession exampleAfterUpdate = Some (exampleSession [])" using f by (simp add: e)
  show "styleWidth (clipDiv exampleAfterUpdate) = Some 800" using f by (simp add: e)
  show "styleHeight (clipDiv exampleAfterUpdate) = Some 140" using f by (simp add: e)
qed
lemma update_Returns_rows:
  assumes "update ext this config viewPortSize = Returns this'"
  shows "\<exists>rows. getVisibleRows this config = Returns rows"
proof (cases "getVisibleRows this config")
  case (Returns rows)
  then show ?thesis by blast
next
  case (Throws e)
  then have "getVisibleRows
      (this\<lparr>lastConfig := Some config, lastViewPortSize := Some viewPortSize\<rparr>) config = Throws e"
    using getVisibleRows_session
      [of "this\<lparr>lastConfig := Some config, lastViewPortSize := Some viewPortSize\<rparr>" this config]
    by simp
  with assms show ?thesis by (simp add: update_def Let_def)
next
  case Diverges
  then have "getVisibleRows
      (this\<lparr>lastConfig := Some config, lastViewPortSize := Some viewPortSize\<rparr>) config = Diverges"
    using getVisibleRows_session
      [of "this\<lparr>lastConfig := Some config, lastViewPortSize := Some viewPortSize\<rparr>" this config]
    by simp
  with assms show ?thesis by (simp add: update_def Let_def)
qed

lemma setUpRenderCanvas_width:
  "currentCanvasRawWidthPx this \<le>
     currentCanvasRawWidthPx (setUpRenderCanvas ext this config viewPortSize n) \<and>
   (canvasWidthCssPx this \<le> currentCanvasRawWidthPx this \<longrightarrow>
      canvasWidthCssPx this \<le> canvasWidthCssPx (setUpRenderCanvas ext this config viewPortSize n) \<and>
      canvasWidthCssPx (setUpRenderCanvas ext this config viewPortSize n) \<le>
        currentCanvasRawWidthPx (setUpRenderCanvas ext this config viewPortSize n))"
  by (auto simp add: setUpRenderCanvas_def Let_def provisionCanvas_fields
      deleteCanvasElement_fields setupClipping_fields split: option.split)

lemma update_width_monotone:
  assumes "update ext this config viewPortSize = Returns this'"
  shows "currentCanvasRawWidthPx this \<le> currentCanvasRawWidthPx this' \<and>
         (canvasWidthCssPx this \<le> currentCanvasRawWidthPx this \<longrightarrow>
            canvasWidthCssPx this \<le> canvasWidthCssPx this' \<and>
            canvasWidthCssPx this' \<le> currentCanvasRawWidthPx this')"
proof -
  let ?this1 = "this\<lparr>lastConfig := Some config, lastViewPortSize := Some viewPortSize\<rparr>"
  from update_Returns_rows [OF assms] obtain rows where
    "getVisibleRows this config = Returns rows" by blast
  from update_Returns [OF this, of ext viewPortSize] assms
  obtain canvas grid where
    "this' = (setUpRenderCanvas ext ?this1 config viewPortSize (length rows))
               \<lparr>charRenderCanvas := Some (canvas\<lparr>cellGrid := grid\<rparr>),
                renderPasses :=
                  renderPasses (setUpRenderCanvas ext ?this1 config viewPortSize (length rows)) + 1\<rparr>"
    by auto
  then show ?thesis
    using setUpRenderCanvas_width [of ?this1 ext config viewPortSize "length rows"] by simp
qed

lemma updates_width_monotone:
  "updates ext this calls = Returns this' \<Longrightarrow>
   currentCanvasRawWidthPx this \<le> currentCanvasRawWidthPx this' \<and>
   (canvasWidthCssPx this \<le> currentCanvasRawWidthPx this \<longrightarrow>
      canvasWidthCssPx this \<le> canvasWidthCssPx this' \<and>
      canvasWidthCssPx this' \<le> currentCanvasRawWidthPx this')"
proof (induction calls arbitrary: this)
  case Nil
  then show ?case by simp
next
  case (Cons call calls)
  obtain config viewPortSize where call: "call = (config, viewPortSize)" by (cases call)
  from Cons.prems call obtain mid where
    u: "update ext this config viewPortSize = Returns mid"
    and rest: "updates ext mid calls = Returns this'"
    by (cases "update ext this config viewPortSize") simp_all
  from update_width_monotone [OF u] Cons.IH [OF rest] show ?case by auto
qed

lemma update_frame:
  assumes "update ext this config viewPortSize = Returns this'"
  shows "hoveredURL this' = hoveredURL this \<and> editSession this' = editSession this \<and>
         renderPasses this' = renderPasses this + 1"
proof -
  let ?this1 = "this\<lparr>lastConfig := Some config, lastViewPortSize := Some viewPortSize\<rparr>"
  from update_Returns_rows [OF assms] obtain rows where
    "getVisibleRows this config = Returns rows" by blast
  from update_Returns [OF this, of ext viewPortSize] assms
  obtain canvas grid where
    "this' = (setUpRenderCanvas ext ?this1 config viewPortSize (length rows))
               \<lparr>charRenderCanvas := Some (canvas\<lparr>cellGrid := grid\<rparr>),
                renderPasses :=
                  renderPasses (setUpRenderCanvas ext ?this1 config viewPortSize (length rows)) + 1\<rparr>"
    by auto
  then show ?thesis
    using setUpRenderCanvas_frame [of ext ?this1 config viewPortSize "length rows"] by simp
qed

lemma rerender_frame:
  assumes "rerender ext this = Returns this'"
  shows "hoveredURL this' = hoveredURL this \<and> editSession this' = editSession this"
proof (cases "lastConfig this")
  case None
  with assms show ?thesis by (simp add: rerender_def)
next
  case c: (Some config)
  show ?thesis
  proof (cases "lastViewPortSize this")
    case None
    with assms c show ?thesis by (simp add: rerender_def)
  next
    case (Some viewPortSize)
    with assms c have "update ext this config viewPortSize = Returns this'"
      by (simp add: rerender_def)
    from update_frame [OF this] show ?thesis by simp
  qed
qed

lemma resolveHoveredURL_shape:
  assumes "resolveHoveredURL this pos = Returns this1"
  shows "this1 = this\<lparr>hoveredURL := hoveredURL this1\<rparr>"
  using assms
  by (auto simp add: resolveHoveredURL_def Let_def split: option.splits if_splits)

lemma getVisibleRows_exampleAfterUpdate:
  "getVisibleRows exampleAfterUpdate exampleConfig = Returns [0, 1, 2, 3, 4, 5, 6]"
  using getVisibleRows_session [of exampleAfterUpdate "exampleLayer []" exampleConfig]
    getVisibleRows_exampleLayer
  by (simp add: exampleAfterUpdate_fields editSession_exampleLayer)

lemma exampleLayer_fields:
  "charRenderCanvas (exampleLayer folds) = None"
  "canvasWidthCssPx (exampleLayer folds) = 0"
  "currentCanvasRawWidthPx (exampleLayer folds) = 0"
  "canvasesCreated (exampleLayer folds) = 0"
  "lastConfig (exampleLayer folds) = None"
  "hoveredURL (exampleLayer folds) = None"
  "renderPasses (exampleLayer folds) = 0"
  by (simp_all add: exampleLayer_def setSession_def newCanvasTextLayer_def)

lemma exampleAfterUpdate_more:
  "renderPasses exampleAfterUpdate = 1"
  "disposed exampleAfterUpdate = []"
  "hoveredURL exampleAfterUpdate = None"
  "lastConfig exampleAfterUpdate = Some exampleConfig"
  "lastViewPortSize exampleAfterUpdate = Some \<lparr>widthPx = 800\<rparr>"
  "devicePixelRatio exampleAfterUpdate = 1"
proof -
  let ?this1 = "(exampleLayer [])\<lparr>lastConfig := Some exampleConfig,
                                   lastViewPortSize := Some \<lparr>widthPx = 800\<rparr>\<rparr>"
  let ?that = "setUpRenderCanvas exampleExternals ?this1 exampleConfig \<lparr>widthPx = 800\<rparr>
                 (length [0, 1, 2, 3, 4, 5, 6 :: int])"
  from update_Returns [OF getVisibleRows_exampleLayer, of exampleExternals "\<lparr>widthPx = 800\<rparr>"]
    exampleAfterUpdate_fields(1)
  obtain canvas grid where
    e: "exampleAfterUpdate = ?that\<lparr>charRenderCanvas := Some (canvas\<lparr>cellGrid := grid\<rparr>),
                                     renderPasses := renderPasses ?that + 1\<rparr>"
    by auto
  have frame:
    "renderPasses (setUpRenderCanvas exampleExternals ?this1 exampleConfig \<lparr>widthPx = 800\<rparr> n) = 0"
    "hoveredURL (setUpRenderCanvas exampleExternals ?this1 exampleConfig \<lparr>widthPx = 800\<rparr> n) = None"
    "lastConfig (setUpRenderCanvas exampleExternals ?this1 exampleConfig \<lparr>widthPx = 800\<rparr> n) =
       Some exampleConfig"
    "lastViewPortSize (setUpRenderCanvas exampleExternals ?this1 exampleConfig \<lparr>widthPx = 800\<rparr> n) =
       Some \<lparr>widthPx = 800\<rparr>"
    for n
    using setUpRenderCanvas_frame [of exampleExternals ?this1 exampleConfig "\<lparr>widthPx = 800\<rparr>" n]
    by (simp_all add: exampleLayer_fields)
  have d: "disposed (setUpRenderCanvas exampleExternals ?this1 exampleConfig \<lparr>widthPx = 800\<rparr> n) = []"
    for n
    by (simp add: setUpRenderCanvas_def Let_def exampleLayer_fields provisionCanvas_fields)
       (simp add: exampleLayer_def setSession_def newCanvasTextLayer_def)
  have r: "devicePixelRatio (setUpRenderCanvas exampleExternals ?this1 exampleConfig \<lparr>widthPx = 800\<rparr> n) = 1"
    for n
    by (simp add: setUpRenderCanvas_def Let_def exampleLayer_fields provisionCanvas_def
        createCanvas_def setupClipping_def)
       (simp add: exampleLayer_def setSession_def newCanvasTextLayer_def exampleExternals_def)
  show "devicePixelRatio exampleAfterUpdate = 1" by (subst e) (simp add: r)
  show "renderPasses exampleAfterUpdate = 1" by (subst e) (simp add: frame)
  show "disposed exampleAfterUpdate = []" by (subst e) (simp add: d)
  show "hoveredURL exampleAfterUpdate = None" by (subst e) (simp add: frame)
  show "lastConfig exampleAfterUpdate = Some exampleConfig" by (subst e) (simp add: frame)
  show "lastViewPortSize exampleAfterUpdate = Some \<lparr>widthPx = 800\<rparr>"
    by (subst e) (simp add: frame)
qed

lemma writeLinesToGrid_cong:
  "editSession a = editSession b \<Longrightarrow> hoveredURL a = hoveredURL b \<Longrightarrow>
   writeLinesToGrid ext a grid rows marker = writeLinesToGrid ext b grid rows marker"
  by (simp add: writeLinesToGrid_def split: option.split)

text \<open>What \<^verbatim>\<open>update\<close> returns, with the grid that \<^verbatim>\<open>_writeLinesToGrid\<close> leaves.\<close>

lemma update_Returns_grid:
  assumes rows: "getVisibleRows this config = Returns rows"
    and c: "charRenderCanvas
              (setUpRenderCanvas ext
                 (this\<lparr>lastConfig := Some config, lastViewPortSize := Some viewPortSize\<rparr>)
                 config viewPortSize (length rows)) = Some canvas"
  shows "\<exists>grid.
           writeLinesToGrid ext this (cellGrid canvas) rows (ligatureMarker this) = Returns grid \<and>
           update ext this config viewPortSize =
             Returns ((setUpRenderCanvas ext
                         (this\<lparr>lastConfig := Some config, lastViewPortSize := Some viewPortSize\<rparr>)
                         config viewPortSize (length rows))
                      \<lparr>charRenderCanvas := Some (canvas\<lparr>cellGrid := grid\<rparr>),
                       renderPasses := renderPasses this + 1\<rparr>)"
proof -
  let ?this1 = "this\<lparr>lastConfig := Some config, lastViewPortSize := Some viewPortSize\<rparr>"
  let ?that = "setUpRenderCanvas ext ?this1 config viewPortSize (length rows)"
  have r1: "getVisibleRows ?this1 config = Returns rows"
    using rows getVisibleRows_session [of ?this1 this config] by simp
  have frame: "editSession ?that = editSession this" "hoveredURL ?that = hoveredURL this"
    "ligatureMarker ?that = ligatureMarker this" "renderPasses ?that = renderPasses this"
    using setUpRenderCanvas_frame [of ext ?this1 config viewPortSize "length rows"] by simp_all
  from getVisibleRows_Returns_session [OF rows]
  obtain session where "editSession this = Some session" by blast
  then have "\<exists>grid. writeLinesToGrid ext this (cellGrid canvas) rows (ligatureMarker this) =
                 Returns grid"
    by (simp add: writeLinesToGrid_def)
  then obtain grid where
    w: "writeLinesToGrid ext this (cellGrid canvas) rows (ligatureMarker this) = Returns grid"
    by blast
  have "writeLinesToGrid ext ?that (cellGrid canvas) rows (ligatureMarker ?that) = Returns grid"
    using w writeLinesToGrid_cong [OF frame(1,2), of ext "cellGrid canvas" rows "ligatureMarker this"]
    by (simp add: frame(3))
  with r1 c have "update ext this config viewPortSize =
          Returns (?that\<lparr>charRenderCanvas := Some (canvas\<lparr>cellGrid := grid\<rparr>),
                        renderPasses := renderPasses this + 1\<rparr>)"
    by (simp add: update_def Let_def frame(4))
  with w show ?thesis by blast
qed

text \<open>
  From the constructor on, the allocated width \<^verbatim>\<open>_canvasWidthCssPx\<close> and the raw width
  \<^verbatim>\<open>_currentCanvasRawWidthPx\<close> are the same number.
\<close>

lemma setUpRenderCanvas_width_eq:
  "canvasWidthCssPx this = currentCanvasRawWidthPx this \<Longrightarrow>
   canvasWidthCssPx (setUpRenderCanvas ext this config viewPortSize n) =
     currentCanvasRawWidthPx (setUpRenderCanvas ext this config viewPortSize n)"
  by (auto simp add: setUpRenderCanvas_def Let_def provisionCanvas_fields
      deleteCanvasElement_fields setupClipping_fields split: option.split)

lemma update_width_eq:
  assumes u: "update ext this config viewPortSize = Returns this'"
    and eq: "canvasWidthCssPx this = currentCanvasRawWidthPx this"
  shows "canvasWidthCssPx this' = currentCanvasRawWidthPx this'"
proof -
  let ?this1 = "this\<lparr>lastConfig := Some config, lastViewPortSize := Some viewPortSize\<rparr>"
  from update_Returns_rows [OF u] obtain rows where
    "getVisibleRows this config = Returns rows" by blast
  from update_Returns [OF this, of ext viewPortSize] u
  obtain canvas grid where
    "this' = (setUpRenderCanvas ext ?this1 config viewPortSize (length rows))
               \<lparr>charRenderCanvas := Some (canvas\<lparr>cellGrid := grid\<rparr>),
                renderPasses :=
                  renderPasses (setUpRenderCanvas ext ?this1 config viewPortSize (length rows)) + 1\<rparr>"
    by auto
  then show ?thesis
    using setUpRenderCanvas_width_eq [of ?this1 ext config viewPortSize "length rows"] eq by simp
qed

lemma rerender_width_eq:
  assumes r: "rerender ext this = Returns this'"
    and eq: "canvasWidthCssPx this = currentCanvasRawWidthPx this"
  shows "canvasWidthCssPx this' = currentCanvasRawWidthPx this'"
proof (cases "lastConfig this")
  case None
  with r eq show ?thesis by (simp add: rerender_def)
next
  case c: (Some config)
  show ?thesis
  proof (cases "lastViewPortSize this")
    case None
    with r c eq show ?thesis by (simp add: rerender_def)
  next
    case (Some viewPortSize)
    with r c have "update ext this config viewPortSize = Returns this'"
      by (simp add: rerender_def)
    from update_width_eq [OF this eq] show ?thesis .
  qed
qed

lemma scrollRows_width_eq:
  assumes sc: "scrollRows ext this config viewPortSize = Returns this'"
    and eq: "canvasWidthCssPx this = currentCanvasRawWidthPx this"
  shows "canvasWidthCssPx this' = currentCanvasRawWidthPx this'"
proof (cases "charRenderCanvas this")
  case None
  with sc have "update ext this config viewPortSize = Returns this'"
    by (simp add: scrollRows_def)
  from update_width_eq [OF this eq] show ?thesis .
next
  case (Some canvas)
  with sc obtain lastCfg where l: "lastConfig this = Some lastCfg"
    by (cases "lastConfig this") (simp_all add: scrollRows_def)
  let ?scrolled = "this\<lparr>charRenderCanvas :=
      Some (canvas\<lparr>cellGrid := scrollVertical ext (cellGrid canvas)
                                   (firstRow config - firstRow lastCfg)\<rparr>)\<rparr>"
  have eq': "canvasWidthCssPx ?scrolled = currentCanvasRawWidthPx ?scrolled"
    using eq by simp
  show ?thesis
  proof (cases "\<bar>firstRow config - firstRow lastCfg\<bar> < int (height (cellGrid canvas))")
    case True
    with sc Some l have "update ext ?scrolled config viewPortSize = Returns this'"
      by (simp add: scrollRows_def)
    from update_width_eq [OF this eq'] show ?thesis .
  next
    case False
    with sc Some l have "update ext this config viewPortSize = Returns this'"
      by (simp add: scrollRows_def)
    from update_width_eq [OF this eq] show ?thesis .
  qed
qed

lemma mouseOver_width_eq:
  assumes m: "mouseOver ext this pos = Returns this'"
    and eq: "canvasWidthCssPx this = currentCanvasRawWidthPx this"
  shows "canvasWidthCssPx this' = currentCanvasRawWidthPx this'"
proof -
  from m obtain this1 where r: "resolveHoveredURL this pos = Returns this1"
    by (cases "resolveHoveredURL this pos") (simp_all add: mouseOver_def)
  have s1: "this1 = this\<lparr>hoveredURL := hoveredURL this1\<rparr>"
    by (rule resolveHoveredURL_shape [OF r])
  have eq1: "canvasWidthCssPx this1 = currentCanvasRawWidthPx this1"
    by (subst s1, subst (2) s1) (simp add: eq)
  show ?thesis
  proof (cases "hoveredURL this = hoveredURL this1")
    case True
    with m r have "this' = this1" by (simp add: mouseOver_def)
    with eq1 show ?thesis by simp
  next
    case False
    with m r have "rerender ext this1 = Returns this'" by (simp add: mouseOver_def)
    from rerender_width_eq [OF this eq1] show ?thesis .
  qed
qed

lemma reachable_width_eq:
  "reachable ext this \<Longrightarrow> canvasWidthCssPx this = currentCanvasRawWidthPx this"
proof (induction rule: reachable.induct)
  case (constructed options)
  show ?case by (simp add: newCanvasTextLayer_def)
next
  case (sessionSet this session)
  then show ?case by (simp add: setSession_def)
next
  case (paletteSet this p)
  then show ?case by (simp add: setPalette_def Let_def split: option.split)
next
  case (fontFamilySet this f)
  then show ?case by (simp add: setFontFamily_def deleteCanvasElement_fields)
next
  case (fontSizeSet this px)
  then show ?case by (simp add: setFontSizePx_def deleteCanvasElement_fields)
next
  case (pixelRatioSet this r)
  then show ?case by (simp add: setDevicePixelRatio_def deleteCanvasElement_fields)
next
  case (markerSet this marker)
  then show ?case by (simp add: setLigatureMarker_def deleteCanvasElement_fields)
next
  case (cursorStyleSet this cs)
  then show ?case by (simp add: setCursorStyle_def Let_def split: option.split)
next
  case (transparencySet this b)
  then show ?case by (simp add: setTransparentBackground_def deleteCanvasElement_fields)
next
  case (memoryReduced this)
  then show ?case by (simp add: reduceMemory_def deleteCanvasElement_fields)
next
  case (updated this config viewPortSize this')
  then show ?case using update_width_eq by blast
next
  case (rowsUpdated this config viewPortSize firstR lastR this')
  then show ?case using update_width_eq [of ext this config viewPortSize this']
    by (simp add: updateRows_def)
next
  case (scrolled this config viewPortSize this')
  then show ?case using scrollRows_width_eq by blast
next
  case (rerendered this this')
  then show ?case using rerender_width_eq by blast
next
  case (hovered this pos this')
  then show ?case using mouseOver_width_eq by blast
next
  case (configCached this config viewPortSize)
  then show ?case by simp
next
  case (canvasSetUp this config viewPortSize n)
  then show ?case using setUpRenderCanvas_width_eq by blast
next
  case (gridWritten this canvas grid)
  then show ?case by simp
next
  case (hoverChanged this url)
  then show ?case by simp
qed

lemma reachable_exampleAfterUpdate: "reachable exampleExternals exampleAfterUpdate"
proof -
  have "reachable exampleExternals (exampleLayer [])"
    unfolding exampleLayer_def by (rule reachable.sessionSet [OF reachable.constructed])
  from reachable.updated [OF this exampleAfterUpdate_fields(1)] show ?thesis .
qed

text \<open>The canvas that the end of \<^verbatim>\<open>_setUpRenderCanvas\<close> builds.\<close>

lemma provisionCanvas_canvas:
  "charRenderCanvas (provisionCanvas ext this config w h n) =
     (let W = max w (currentCanvasRawWidthPx this);
          H = of_int \<lceil>numberTimes (of_int (round (numberTimes (of_nat n) (3 / 2))) + 1)
                        (charHeightPx config)\<rceil>;
          opts = \<lparr>optFontFamily = fontFamily this,
                  optFontSizePx = numberTimes (fontSizePx this) (devicePixelRatio this),
                  optPalette = palette this,
                  optWidthPx = renderLength (computeDevicePixelRatioPair ext (devicePixelRatio this) W),
                  optHeightPx = renderLength (computeDevicePixelRatioPair ext (devicePixelRatio this) H),
                  usableWidthPx = numberTimes W (devicePixelRatio this),
                  usableHeightPx = numberTimes H (devicePixelRatio this),
                  extraFonts =
                    [\<lparr>extraFontFamily =
                        (if isWindows ext then ''Segoe UI Emoji'' else ''coloremoji''),
                      extraFontSizePx = numberTimes (fontSizePx this) (devicePixelRatio this),
                      unicodeCodePoints =
                        (if isWindows ext then windowsColorFontCodePoints
                         else twemojiCodePoints),
                      sampleChars = [0x1f600]\<rparr>],
                  optCursorStyle = cursorStyle this,
                  optTransparentBackground = transparentBackground this\<rparr>
      in Some \<lparr>canvasId = canvasesCreated this, canvasOptions = opts,
                cellGrid = newCellGrid ext opts,
                elementWidth = screenLength (computeDevicePixelRatioPair ext (devicePixelRatio this) W),
                elementHeight = screenLength (computeDevicePixelRatioPair ext (devicePixelRatio this) H)\<rparr>)"
  "children (clipDiv (provisionCanvas ext this config w h n)) =
     children (clipDiv this) @ [canvasesCreated this]"
  by (simp_all add: provisionCanvas_def createCanvas_def setupClipping_def Let_def
      PROVISION_HEIGHT_FACTOR_def)

lemma setUpRenderCanvas_allocate_eq:
  assumes "charRenderCanvas this = None \<or>
           canvasWidthCssPx this < widthPx viewPortSize \<or>
           canvasHeightCssPx this <
             of_int \<lceil>numberTimes (of_nat n) (charHeightPx config)\<rceil>"
  shows "setUpRenderCanvas ext this config viewPortSize n =
           provisionCanvas ext
             (case charRenderCanvas this of
                None \<Rightarrow> this
              | Some canvas \<Rightarrow>
                  deleteCanvasElement
                    (setupClipping this (currentCanvasRawWidthPx this)
                       (of_int \<lceil>numberTimes (of_nat n) (charHeightPx config)\<rceil>)))
             config (widthPx viewPortSize)
             (of_int \<lceil>numberTimes (of_nat n) (charHeightPx config)\<rceil>) n"
  using assms
  by (cases "charRenderCanvas this")
     (auto simp add: setUpRenderCanvas_def Let_def setupClipping_fields)

text \<open>
  C6, as the claim states it, fails: after a first \<^verbatim>\<open>update\<close> for a viewport 800 pixels
  wide, an \<^verbatim>\<open>update\<close> for a viewport 600 pixels wide keeps the canvas and sets the width
  of the clip region to 800, the allocated width, not to the width of the viewport.
\<close>

theorem update_clip_width_counterexample:
  "charRenderCanvas exampleAfterUpdate \<noteq> None \<and>
   getVisibleRows exampleAfterUpdate exampleConfig = Returns [0, 1, 2, 3, 4, 5, 6] \<and>
   widthPx \<lparr>widthPx = 600\<rparr> \<le> canvasWidthCssPx exampleAfterUpdate \<and>
   of_int \<lceil>numberTimes (of_nat (length [0, 1, 2, 3, 4, 5, 6 :: int])) (charHeightPx exampleConfig)\<rceil>
     \<le> canvasHeightCssPx exampleAfterUpdate \<and>
   clipWidthAfter (update exampleExternals exampleAfterUpdate exampleConfig \<lparr>widthPx = 600\<rparr>) =
     Some 800 \<and>
   (800 :: real) \<noteq> widthPx \<lparr>widthPx = 600\<rparr>"
proof -
  let ?this1 = "exampleAfterUpdate\<lparr>lastConfig := Some exampleConfig,
                                    lastViewPortSize := Some \<lparr>widthPx = 600\<rparr>\<rparr>"
  have c: "charRenderCanvas exampleAfterUpdate \<noteq> None"
    using exampleAfterUpdate_fields(2) by auto
  have rows: "getVisibleRows exampleAfterUpdate exampleConfig = Returns [0, 1, 2, 3, 4, 5, 6]"
    using getVisibleRows_session [of exampleAfterUpdate "exampleLayer []" exampleConfig]
      getVisibleRows_exampleLayer
    by (simp add: exampleAfterUpdate_fields editSession_exampleLayer)
  have w: "widthPx \<lparr>widthPx = 600\<rparr> \<le> canvasWidthCssPx ?this1"
    by (simp add: exampleAfterUpdate_fields)
  have h: "of_int \<lceil>numberTimes (of_nat (length [0, 1, 2, 3, 4, 5, 6 :: int])) (charHeightPx exampleConfig)\<rceil>
             \<le> canvasHeightCssPx ?this1"
    by (simp add: exampleAfterUpdate_fields exampleConfig_def numberTimes_examples)
  from c obtain canvas where "charRenderCanvas ?this1 = Some canvas" by auto
  from setUpRenderCanvas_keep [OF this w h, of exampleExternals]
  have keep: "styleWidth (clipDiv (setUpRenderCanvas exampleExternals ?this1 exampleConfig
                \<lparr>widthPx = 600\<rparr> (length [0, 1, 2, 3, 4, 5, 6 :: int]))) = Some 800"
    by (simp add: setupClipping_fields exampleAfterUpdate_fields)
  from update_Returns [OF rows, of exampleExternals "\<lparr>widthPx = 600\<rparr>"] keep
  have "clipWidthAfter
          (update exampleExternals exampleAfterUpdate exampleConfig \<lparr>widthPx = 600\<rparr>) = Some 800"
    by auto
  with c rows w h show ?thesis by simp
qed


text \<open>
  C6, amended. If a render canvas exists and its allocated width and height are at least
  the width of the viewport and the required height (\<^verbatim>\<open>Math.ceil\<close> of the double product
  of the number of visible rows and the row height), then \<^verbatim>\<open>update\<close> returns with the
  same canvas object, only its cell grid rewritten by \<^verbatim>\<open>_writeLinesToGrid\<close>, creates and
  disposes no canvas, and sets the clip region to the required height and to the allocated
  raw width \<^verbatim>\<open>_currentCanvasRawWidthPx\<close>, not to the width of the viewport; in every
  state that the constructor and the methods of the layer give, that width is at least the
  width of the viewport.
\<close>

theorem update_keeps_canvas:
  assumes "charRenderCanvas this = Some canvas"
    and "getVisibleRows this config = Returns rows"
    and "widthPx viewPortSize \<le> canvasWidthCssPx this"
    and "of_int \<lceil>numberTimes (of_nat (length rows)) (charHeightPx config)\<rceil>
           \<le> canvasHeightCssPx this"
  shows "\<exists>this' grid. update ext this config viewPortSize = Returns this' \<and>
           writeLinesToGrid ext this (cellGrid canvas) rows (ligatureMarker this) =
             Returns grid \<and>
           charRenderCanvas this' = Some (canvas\<lparr>cellGrid := grid\<rparr>) \<and>
           canvasesCreated this' = canvasesCreated this \<and> disposed this' = disposed this \<and>
           children (clipDiv this') = children (clipDiv this) \<and>
           canvasWidthCssPx this' = canvasWidthCssPx this \<and>
           canvasHeightCssPx this' = canvasHeightCssPx this \<and>
           currentCanvasRawWidthPx this' = currentCanvasRawWidthPx this \<and>
           styleWidth (clipDiv this') = Some (currentCanvasRawWidthPx this) \<and>
           styleHeight (clipDiv this') =
             Some (of_int \<lceil>numberTimes (of_nat (length rows)) (charHeightPx config)\<rceil>) \<and>
           (reachable ext this \<longrightarrow> widthPx viewPortSize \<le> currentCanvasRawWidthPx this)"
proof -
  let ?this1 = "this\<lparr>lastConfig := Some config, lastViewPortSize := Some viewPortSize\<rparr>"
  let ?h = "of_int \<lceil>numberTimes (of_nat (length rows)) (charHeightPx config)\<rceil> :: real"
  have c1: "charRenderCanvas ?this1 = Some canvas" using assms(1) by simp
  have w1: "widthPx viewPortSize \<le> canvasWidthCssPx ?this1" using assms(3) by simp
  have h1: "?h \<le> canvasHeightCssPx ?this1" using assms(4) by simp
  have keep: "setUpRenderCanvas ext ?this1 config viewPortSize (length rows) =
                setupClipping ?this1 (currentCanvasRawWidthPx ?this1) ?h"
    by (rule setUpRenderCanvas_keep [OF c1 w1 h1])
  have c: "charRenderCanvas (setUpRenderCanvas ext ?this1 config viewPortSize (length rows)) =
             Some canvas"
    using c1 by (simp add: keep setupClipping_fields)
  from update_Returns_grid [OF assms(2) c]
  obtain grid where
    w: "writeLinesToGrid ext this (cellGrid canvas) rows (ligatureMarker this) = Returns grid"
    and u: "update ext this config viewPortSize =
              Returns ((setUpRenderCanvas ext ?this1 config viewPortSize (length rows))
                       \<lparr>charRenderCanvas := Some (canvas\<lparr>cellGrid := grid\<rparr>),
                        renderPasses := renderPasses this + 1\<rparr>)"
    by blast
  have wide: "widthPx viewPortSize \<le> currentCanvasRawWidthPx this" if "reachable ext this"
    using reachable_width_eq [OF that] assms(3) by simp
  show ?thesis
    using u w wide by (simp add: keep setupClipping_fields setupClipping_def)
qed

theorem update_keeps_canvas_witness:
  "reachable exampleExternals exampleAfterUpdate \<and>
   map_option canvasId (charRenderCanvas exampleAfterUpdate) = Some 0 \<and>
   canvasWidthCssPx exampleAfterUpdate = 800 \<and> canvasHeightCssPx exampleAfterUpdate = 240 \<and>
   (\<exists>this' canvas'.
      update exampleExternals exampleAfterUpdate exampleConfig \<lparr>widthPx = 600\<rparr> = Returns this' \<and>
      charRenderCanvas this' = Some canvas' \<and> canvasId canvas' = 0 \<and>
      canvasesCreated this' = 1 \<and>
      styleWidth (clipDiv this') = Some 800 \<and> styleHeight (clipDiv this') = Some 140 \<and>
      widthPx \<lparr>widthPx = 600\<rparr> \<le> (800 :: real))"
proof -
  obtain canvas where c: "charRenderCanvas exampleAfterUpdate = Some canvas"
    and cid: "canvasId canvas = 0"
    using exampleAfterUpdate_fields(2) by auto
  have w: "widthPx \<lparr>widthPx = 600\<rparr> \<le> canvasWidthCssPx exampleAfterUpdate"
    by (simp add: exampleAfterUpdate_fields)
  have hv: "of_int \<lceil>numberTimes (of_nat (length [0, 1, 2, 3, 4, 5, 6 :: int]))
                        (charHeightPx exampleConfig)\<rceil> = (140 :: real)"
    by (simp add: exampleConfig_def numberTimes_examples)
  have h: "of_int \<lceil>numberTimes (of_nat (length [0, 1, 2, 3, 4, 5, 6 :: int]))
                       (charHeightPx exampleConfig)\<rceil> \<le> canvasHeightCssPx exampleAfterUpdate"
    unfolding hv by (simp add: exampleAfterUpdate_fields)
  from update_keeps_canvas [OF c getVisibleRows_exampleAfterUpdate w h, of exampleExternals]
  obtain this' grid where
    u: "update exampleExternals exampleAfterUpdate exampleConfig \<lparr>widthPx = 600\<rparr> = Returns this'"
    and c': "charRenderCanvas this' = Some (canvas\<lparr>cellGrid := grid\<rparr>)"
    and n: "canvasesCreated this' = canvasesCreated exampleAfterUpdate"
    and sw: "styleWidth (clipDiv this') = Some (currentCanvasRawWidthPx exampleAfterUpdate)"
    and sh: "styleHeight (clipDiv this') =
               Some (of_int \<lceil>numberTimes (of_nat (length [0, 1, 2, 3, 4, 5, 6 :: int]))
                                 (charHeightPx exampleConfig)\<rceil>)"
    and wide: "reachable exampleExternals exampleAfterUpdate \<longrightarrow>
                 widthPx \<lparr>widthPx = 600\<rparr> \<le> currentCanvasRawWidthPx exampleAfterUpdate"
    by blast
  have "canvasId (canvas\<lparr>cellGrid := grid\<rparr>) = 0" using cid by simp
  moreover have "canvasesCreated this' = 1" using n by (simp add: exampleAfterUpdate_fields)
  moreover have "styleWidth (clipDiv this') = Some 800"
    using sw by (simp add: exampleAfterUpdate_fields)
  moreover have "styleHeight (clipDiv this') = Some 140" using sh hv by simp
  moreover have "widthPx \<lparr>widthPx = 600\<rparr> \<le> (800 :: real)"
    using wide reachable_exampleAfterUpdate by (simp add: exampleAfterUpdate_fields)
  ultimately show ?thesis
    using u c' reachable_exampleAfterUpdate exampleAfterUpdate_fields(2,3,4) by blast
qed

text \<open>
  C7. When \<^verbatim>\<open>update\<close> has to allocate a canvas (none exists, or the one that exists is
  narrower than the viewport or lower than the required height and is disposed first), the
  canvas it builds has the raw CSS height \<open>H = \<lceil>(round (n \<times> 1.5) + 1) \<times> charHeightPx\<rceil>\<close>,
  for \<open>n\<close> visible rows and \<open>\<times>\<close> the double product, and the raw CSS width \<open>W\<close> that is
  the maximum of the width of the viewport and of the raw width allocated before: these
  are the sizes the layer records, and the canvas is constructed with the options of
  \<^verbatim>\<open>_createCanvas\<close> for them and gets the CSS size that
  \<^verbatim>\<open>_computeDevicePixelRatioPair\<close> gives for them (\<open>W\<close> by \<open>H\<close> itself at a device pixel
  ratio of 1). Over any sequence of calls of \<^verbatim>\<open>update\<close> that return, the allocated raw
  width \<^verbatim>\<open>_currentCanvasRawWidthPx\<close> does not decrease, and nor does
  \<^verbatim>\<open>_canvasWidthCssPx\<close> once it is no more than the former, as it is from the constructor
  on.
\<close>

theorem update_allocates_canvas:
  "(\<forall>rows.
      let required = of_int \<lceil>numberTimes (of_nat (length rows)) (charHeightPx config)\<rceil>;
          W = max (widthPx viewPortSize) (currentCanvasRawWidthPx this);
          H = of_int \<lceil>numberTimes
                         (of_int (round (numberTimes (of_nat (length rows)) (3 / 2))) + 1)
                         (charHeightPx config)\<rceil>;
          ratio = devicePixelRatio this
      in getVisibleRows this config = Returns rows \<and>
         (charRenderCanvas this = None \<or>
          canvasWidthCssPx this < widthPx viewPortSize \<or>
          canvasHeightCssPx this < required) \<longrightarrow>
         (\<exists>this' canvas'. update ext this config viewPortSize = Returns this' \<and>
            charRenderCanvas this' = Some canvas' \<and>
            canvasId canvas' = canvasesCreated this \<and>
            canvasesCreated this' = canvasesCreated this + 1 \<and>
            (\<forall>old. charRenderCanvas this = Some old \<longrightarrow>
               disposed this' = disposed this @ [canvasId old]) \<and>
            canvasHeightCssPx this' = H \<and>
            canvasWidthCssPx this' = W \<and>
            currentCanvasRawWidthPx this' = W \<and>
            elementWidth canvas' = screenLength (computeDevicePixelRatioPair ext ratio W) \<and>
            elementHeight canvas' = screenLength (computeDevicePixelRatioPair ext ratio H) \<and>
            (ratio = 1 \<longrightarrow> elementWidth canvas' = W \<and> elementHeight canvas' = H) \<and>
            canvasOptions canvas' =
              \<lparr>optFontFamily = fontFamily this,
               optFontSizePx = numberTimes (fontSizePx this) ratio,
               optPalette = palette this,
               optWidthPx = renderLength (computeDevicePixelRatioPair ext ratio W),
               optHeightPx = renderLength (computeDevicePixelRatioPair ext ratio H),
               usableWidthPx = numberTimes W ratio,
               usableHeightPx = numberTimes H ratio,
               extraFonts =
                 [\<lparr>extraFontFamily =
                     (if isWindows ext then ''Segoe UI Emoji'' else ''coloremoji''),
                   extraFontSizePx = numberTimes (fontSizePx this) ratio,
                   unicodeCodePoints =
                     (if isWindows ext then windowsColorFontCodePoints else twemojiCodePoints),
                   sampleChars = [0x1f600]\<rparr>],
               optCursorStyle = cursorStyle this,
               optTransparentBackground = transparentBackground this\<rparr> \<and>
            writeLinesToGrid ext this (newCellGrid ext (canvasOptions canvas')) rows
                (ligatureMarker this) = Returns (cellGrid canvas') \<and>
            styleWidth (clipDiv this') = Some W \<and>
            styleHeight (clipDiv this') = Some required \<and>
            children (clipDiv this') =
              (case charRenderCanvas this of
                 None \<Rightarrow> children (clipDiv this)
               | Some old \<Rightarrow> removeAll (canvasId old) (children (clipDiv this)))
              @ [canvasesCreated this])) \<and>
   (\<forall>calls this'. updates ext this calls = Returns this' \<longrightarrow>
      currentCanvasRawWidthPx this \<le> currentCanvasRawWidthPx this' \<and>
      (canvasWidthCssPx this \<le> currentCanvasRawWidthPx this \<longrightarrow>
         canvasWidthCssPx this \<le> canvasWidthCssPx this'))"
proof (intro conjI allI)
  fix rows :: "int list"
  let ?this1 = "this\<lparr>lastConfig := Some config, lastViewPortSize := Some viewPortSize\<rparr>"
  let ?h = "of_int \<lceil>numberTimes (of_nat (length rows)) (charHeightPx config)\<rceil> :: real"
  define base where "base =
    (case charRenderCanvas ?this1 of
       None \<Rightarrow> ?this1
     | Some canvas \<Rightarrow>
         deleteCanvasElement (setupClipping ?this1 (currentCanvasRawWidthPx ?this1) ?h))"
  define that where
    "that = provisionCanvas ext base config (widthPx viewPortSize) ?h (length rows)"
  have main: "\<exists>this' canvas'. update ext this config viewPortSize = Returns this' \<and>
      charRenderCanvas this' = Some canvas' \<and>
      charRenderCanvas that = Some (canvas'\<lparr>cellGrid := newCellGrid ext (canvasOptions canvas')\<rparr>) \<and>
      writeLinesToGrid ext this (newCellGrid ext (canvasOptions canvas')) rows
        (ligatureMarker this) = Returns (cellGrid canvas') \<and>
      this' = that\<lparr>charRenderCanvas := Some canvas', renderPasses := renderPasses this + 1\<rparr>"
    if rows: "getVisibleRows this config = Returns rows"
      and cond: "charRenderCanvas this = None \<or> canvasWidthCssPx this < widthPx viewPortSize \<or>
                 canvasHeightCssPx this < ?h"
  proof -
    have cond1: "charRenderCanvas ?this1 = None \<or>
                 canvasWidthCssPx ?this1 < widthPx viewPortSize \<or>
                 canvasHeightCssPx ?this1 < ?h"
      using cond by simp
    have alloc: "setUpRenderCanvas ext ?this1 config viewPortSize (length rows) = that"
      unfolding that_def base_def by (rule setUpRenderCanvas_allocate_eq [OF cond1])
    obtain built where b: "charRenderCanvas that = Some built"
      using provisionCanvas_fields(1) [of ext base config "widthPx viewPortSize" ?h "length rows"]
      unfolding that_def by auto
    have grid0: "cellGrid built = newCellGrid ext (canvasOptions built)"
      using b provisionCanvas_canvas(1)
        [of ext base config "widthPx viewPortSize" ?h "length rows"]
      unfolding that_def by (auto simp add: Let_def)
    from update_Returns_grid [OF rows, of ext viewPortSize built] b alloc
    obtain grid where
      w: "writeLinesToGrid ext this (cellGrid built) rows (ligatureMarker this) = Returns grid"
      and u: "update ext this config viewPortSize =
                Returns (that\<lparr>charRenderCanvas := Some (built\<lparr>cellGrid := grid\<rparr>),
                              renderPasses := renderPasses this + 1\<rparr>)"
      by auto
    let ?canvas' = "built\<lparr>cellGrid := grid\<rparr>"
    have "charRenderCanvas that =
            Some (?canvas'\<lparr>cellGrid := newCellGrid ext (canvasOptions ?canvas')\<rparr>)"
      using b grid0 by simp
    moreover have "writeLinesToGrid ext this (newCellGrid ext (canvasOptions ?canvas')) rows
                     (ligatureMarker this) = Returns (cellGrid ?canvas')"
      using w grid0 by simp
    ultimately show ?thesis using u by auto
  qed
  show "let required = of_int \<lceil>numberTimes (of_nat (length rows)) (charHeightPx config)\<rceil>;
          W = max (widthPx viewPortSize) (currentCanvasRawWidthPx this);
          H = of_int \<lceil>numberTimes
                         (of_int (round (numberTimes (of_nat (length rows)) (3 / 2))) + 1)
                         (charHeightPx config)\<rceil>;
          ratio = devicePixelRatio this
      in getVisibleRows this config = Returns rows \<and>
         (charRenderCanvas this = None \<or>
          canvasWidthCssPx this < widthPx viewPortSize \<or>
          canvasHeightCssPx this < required) \<longrightarrow>
         (\<exists>this' canvas'. update ext this config viewPortSize = Returns this' \<and>
            charRenderCanvas this' = Some canvas' \<and>
            canvasId canvas' = canvasesCreated this \<and>
            canvasesCreated this' = canvasesCreated this + 1 \<and>
            (\<forall>old. charRenderCanvas this = Some old \<longrightarrow>
               disposed this' = disposed this @ [canvasId old]) \<and>
            canvasHeightCssPx this' = H \<and>
            canvasWidthCssPx this' = W \<and>
            currentCanvasRawWidthPx this' = W \<and>
            elementWidth canvas' = screenLength (computeDevicePixelRatioPair ext ratio W) \<and>
            elementHeight canvas' = screenLength (computeDevicePixelRatioPair ext ratio H) \<and>
            (ratio = 1 \<longrightarrow> elementWidth canvas' = W \<and> elementHeight canvas' = H) \<and>
            canvasOptions canvas' =
              \<lparr>optFontFamily = fontFamily this,
               optFontSizePx = numberTimes (fontSizePx this) ratio,
               optPalette = palette this,
               optWidthPx = renderLength (computeDevicePixelRatioPair ext ratio W),
               optHeightPx = renderLength (computeDevicePixelRatioPair ext ratio H),
               usableWidthPx = numberTimes W ratio,
               usableHeightPx = numberTimes H ratio,
               extraFonts =
                 [\<lparr>extraFontFamily =
                     (if isWindows ext then ''Segoe UI Emoji'' else ''coloremoji''),
                   extraFontSizePx = numberTimes (fontSizePx this) ratio,
                   unicodeCodePoints =
                     (if isWindows ext then windowsColorFontCodePoints else twemojiCodePoints),
                   sampleChars = [0x1f600]\<rparr>],
               optCursorStyle = cursorStyle this,
               optTransparentBackground = transparentBackground this\<rparr> \<and>
            writeLinesToGrid ext this (newCellGrid ext (canvasOptions canvas')) rows
                (ligatureMarker this) = Returns (cellGrid canvas') \<and>
            styleWidth (clipDiv this') = Some W \<and>
            styleHeight (clipDiv this') = Some required \<and>
            children (clipDiv this') =
              (case charRenderCanvas this of
                 None \<Rightarrow> children (clipDiv this)
               | Some old \<Rightarrow> removeAll (canvasId old) (children (clipDiv this)))
              @ [canvasesCreated this])"
    unfolding Let_def
  proof (intro impI)
    assume a: "getVisibleRows this config = Returns rows \<and>
         (charRenderCanvas this = None \<or>
          canvasWidthCssPx this < widthPx viewPortSize \<or>
          canvasHeightCssPx this < ?h)"
    from main [of] a obtain this' canvas' where
      u: "update ext this config viewPortSize = Returns this'"
      and c': "charRenderCanvas this' = Some canvas'"
      and built: "charRenderCanvas that =
                    Some (canvas'\<lparr>cellGrid := newCellGrid ext (canvasOptions canvas')\<rparr>)"
      and w: "writeLinesToGrid ext this (newCellGrid ext (canvasOptions canvas')) rows
                (ligatureMarker this) = Returns (cellGrid canvas')"
      and this': "this' = that\<lparr>charRenderCanvas := Some canvas',
                                renderPasses := renderPasses this + 1\<rparr>"
      by blast
    have fields: "canvasesCreated base = canvasesCreated this"
      "currentCanvasRawWidthPx base = currentCanvasRawWidthPx this"
      "fontFamily base = fontFamily this" "fontSizePx base = fontSizePx this"
      "palette base = palette this" "devicePixelRatio base = devicePixelRatio this"
      "cursorStyle base = cursorStyle this"
      "transparentBackground base = transparentBackground this"
      "disposed base = (case charRenderCanvas this of None \<Rightarrow> disposed this
                         | Some old \<Rightarrow> disposed this @ [canvasId old])"
      "children (clipDiv base) =
         (case charRenderCanvas this of
            None \<Rightarrow> children (clipDiv this)
          | Some old \<Rightarrow> removeAll (canvasId old) (children (clipDiv this)))"
      unfolding base_def
      by (simp_all add: deleteCanvasElement_def setupClipping_def split: option.split)
    have canvas: "canvas'\<lparr>cellGrid := newCellGrid ext (canvasOptions canvas')\<rparr> =
        (let W = max (widthPx viewPortSize) (currentCanvasRawWidthPx this);
             H = of_int \<lceil>numberTimes
                           (of_int (round (numberTimes (of_nat (length rows)) (3 / 2))) + 1)
                           (charHeightPx config)\<rceil>;
             opts = \<lparr>optFontFamily = fontFamily this,
                  optFontSizePx = numberTimes (fontSizePx this) (devicePixelRatio this),
                  optPalette = palette this,
                  optWidthPx = renderLength (computeDevicePixelRatioPair ext (devicePixelRatio this) W),
                  optHeightPx = renderLength (computeDevicePixelRatioPair ext (devicePixelRatio this) H),
                  usableWidthPx = numberTimes W (devicePixelRatio this),
                  usableHeightPx = numberTimes H (devicePixelRatio this),
                  extraFonts =
                    [\<lparr>extraFontFamily =
                        (if isWindows ext then ''Segoe UI Emoji'' else ''coloremoji''),
                      extraFontSizePx = numberTimes (fontSizePx this) (devicePixelRatio this),
                      unicodeCodePoints =
                        (if isWindows ext then windowsColorFontCodePoints
                         else twemojiCodePoints),
                      sampleChars = [0x1f600]\<rparr>],
                  optCursorStyle = cursorStyle this,
                  optTransparentBackground = transparentBackground this\<rparr>
         in \<lparr>canvasId = canvasesCreated this, canvasOptions = opts,
              cellGrid = newCellGrid ext opts,
              elementWidth = screenLength (computeDevicePixelRatioPair ext (devicePixelRatio this) W),
              elementHeight = screenLength (computeDevicePixelRatioPair ext (devicePixelRatio this) H)\<rparr>)"
      using built
        provisionCanvas_canvas(1) [of ext base config "widthPx viewPortSize" ?h "length rows"]
      unfolding that_def by (simp only: fields option.inject Let_def)
    have cid: "canvasId canvas' = canvasesCreated this"
      and ew: "elementWidth canvas' =
                 screenLength (computeDevicePixelRatioPair ext (devicePixelRatio this)
                   (max (widthPx viewPortSize) (currentCanvasRawWidthPx this)))"
      and eh: "elementHeight canvas' =
                 screenLength (computeDevicePixelRatioPair ext (devicePixelRatio this)
                   (of_int \<lceil>numberTimes
                           (of_int (round (numberTimes (of_nat (length rows)) (3 / 2))) + 1)
                           (charHeightPx config)\<rceil>))"
      using arg_cong [OF canvas, of canvasId] arg_cong [OF canvas, of elementWidth]
        arg_cong [OF canvas, of elementHeight]
      by (simp_all add: Let_def)
    have opts: "canvasOptions canvas' =
              \<lparr>optFontFamily = fontFamily this,
               optFontSizePx = numberTimes (fontSizePx this) (devicePixelRatio this),
               optPalette = palette this,
               optWidthPx = renderLength (computeDevicePixelRatioPair ext (devicePixelRatio this)
                   (max (widthPx viewPortSize) (currentCanvasRawWidthPx this))),
               optHeightPx = renderLength (computeDevicePixelRatioPair ext (devicePixelRatio this)
                   (of_int \<lceil>numberTimes
                           (of_int (round (numberTimes (of_nat (length rows)) (3 / 2))) + 1)
                           (charHeightPx config)\<rceil>)),
               usableWidthPx = numberTimes
                   (max (widthPx viewPortSize) (currentCanvasRawWidthPx this))
                   (devicePixelRatio this),
               usableHeightPx = numberTimes
                   (of_int \<lceil>numberTimes
                           (of_int (round (numberTimes (of_nat (length rows)) (3 / 2))) + 1)
                           (charHeightPx config)\<rceil>)
                   (devicePixelRatio this),
               extraFonts =
                 [\<lparr>extraFontFamily =
                     (if isWindows ext then ''Segoe UI Emoji'' else ''coloremoji''),
                   extraFontSizePx = numberTimes (fontSizePx this) (devicePixelRatio this),
                   unicodeCodePoints =
                     (if isWindows ext then windowsColorFontCodePoints else twemojiCodePoints),
                   sampleChars = [0x1f600]\<rparr>],
               optCursorStyle = cursorStyle this,
               optTransparentBackground = transparentBackground this\<rparr>"
      using arg_cong [OF canvas, of canvasOptions] by (simp add: Let_def)
    have one: "elementWidth canvas' = max (widthPx viewPortSize) (currentCanvasRawWidthPx this) \<and>
               elementHeight canvas' =
                 of_int \<lceil>numberTimes
                           (of_int (round (numberTimes (of_nat (length rows)) (3 / 2))) + 1)
                           (charHeightPx config)\<rceil>"
      if "devicePixelRatio this = 1"
      using that ew eh by (simp add: computeDevicePixelRatioPair_def)
    have layer: "canvasesCreated this' = canvasesCreated this + 1"
      "\<forall>old. charRenderCanvas this = Some old \<longrightarrow>
         disposed this' = disposed this @ [canvasId old]"
      "canvasHeightCssPx this' =
         of_int \<lceil>numberTimes
                   (of_int (round (numberTimes (of_nat (length rows)) (3 / 2))) + 1)
                   (charHeightPx config)\<rceil>"
      "canvasWidthCssPx this' = max (widthPx viewPortSize) (currentCanvasRawWidthPx this)"
      "currentCanvasRawWidthPx this' = max (widthPx viewPortSize) (currentCanvasRawWidthPx this)"
      "styleWidth (clipDiv this') = Some (max (widthPx viewPortSize) (currentCanvasRawWidthPx this))"
      "styleHeight (clipDiv this') = Some ?h"
      "children (clipDiv this') =
         (case charRenderCanvas this of
            None \<Rightarrow> children (clipDiv this)
          | Some old \<Rightarrow> removeAll (canvasId old) (children (clipDiv this)))
         @ [canvasesCreated this]"
      by (simp_all add: this' that_def provisionCanvas_fields provisionCanvas_canvas(2) fields)
    show "\<exists>this' canvas'. update ext this config viewPortSize = Returns this' \<and>
            charRenderCanvas this' = Some canvas' \<and>
            canvasId canvas' = canvasesCreated this \<and>
            canvasesCreated this' = canvasesCreated this + 1 \<and>
            (\<forall>old. charRenderCanvas this = Some old \<longrightarrow>
               disposed this' = disposed this @ [canvasId old]) \<and>
            canvasHeightCssPx this' =
              of_int \<lceil>numberTimes
                        (of_int (round (numberTimes (of_nat (length rows)) (3 / 2))) + 1)
                        (charHeightPx config)\<rceil> \<and>
            canvasWidthCssPx this' = max (widthPx viewPortSize) (currentCanvasRawWidthPx this) \<and>
            currentCanvasRawWidthPx this' =
              max (widthPx viewPortSize) (currentCanvasRawWidthPx this) \<and>
            elementWidth canvas' =
              screenLength (computeDevicePixelRatioPair ext (devicePixelRatio this)
                (max (widthPx viewPortSize) (currentCanvasRawWidthPx this))) \<and>
            elementHeight canvas' =
              screenLength (computeDevicePixelRatioPair ext (devicePixelRatio this)
                (of_int \<lceil>numberTimes
                          (of_int (round (numberTimes (of_nat (length rows)) (3 / 2))) + 1)
                          (charHeightPx config)\<rceil>)) \<and>
            (devicePixelRatio this = 1 \<longrightarrow>
               elementWidth canvas' = max (widthPx viewPortSize) (currentCanvasRawWidthPx this) \<and>
               elementHeight canvas' =
                 of_int \<lceil>numberTimes
                           (of_int (round (numberTimes (of_nat (length rows)) (3 / 2))) + 1)
                           (charHeightPx config)\<rceil>) \<and>
            canvasOptions canvas' =
              \<lparr>optFontFamily = fontFamily this,
               optFontSizePx = numberTimes (fontSizePx this) (devicePixelRatio this),
               optPalette = palette this,
               optWidthPx =
                 renderLength (computeDevicePixelRatioPair ext (devicePixelRatio this)
                   (max (widthPx viewPortSize) (currentCanvasRawWidthPx this))),
               optHeightPx =
                 renderLength (computeDevicePixelRatioPair ext (devicePixelRatio this)
                   (of_int \<lceil>numberTimes
                             (of_int (round (numberTimes (of_nat (length rows)) (3 / 2))) + 1)
                             (charHeightPx config)\<rceil>)),
               usableWidthPx =
                 numberTimes (max (widthPx viewPortSize) (currentCanvasRawWidthPx this))
                   (devicePixelRatio this),
               usableHeightPx =
                 numberTimes
                   (of_int \<lceil>numberTimes
                             (of_int (round (numberTimes (of_nat (length rows)) (3 / 2))) + 1)
                             (charHeightPx config)\<rceil>)
                   (devicePixelRatio this),
               extraFonts =
                 [\<lparr>extraFontFamily =
                     (if isWindows ext then ''Segoe UI Emoji'' else ''coloremoji''),
                   extraFontSizePx = numberTimes (fontSizePx this) (devicePixelRatio this),
                   unicodeCodePoints =
                     (if isWindows ext then windowsColorFontCodePoints else twemojiCodePoints),
                   sampleChars = [0x1f600]\<rparr>],
               optCursorStyle = cursorStyle this,
               optTransparentBackground = transparentBackground this\<rparr> \<and>
            writeLinesToGrid ext this (newCellGrid ext (canvasOptions canvas')) rows
                (ligatureMarker this) = Returns (cellGrid canvas') \<and>
            styleWidth (clipDiv this') =
              Some (max (widthPx viewPortSize) (currentCanvasRawWidthPx this)) \<and>
            styleHeight (clipDiv this') = Some ?h \<and>
            children (clipDiv this') =
              (case charRenderCanvas this of
                 None \<Rightarrow> children (clipDiv this)
               | Some old \<Rightarrow> removeAll (canvasId old) (children (clipDiv this)))
              @ [canvasesCreated this]"
      using u c' cid ew eh one opts w layer by blast
  qed
next
  fix calls this'
  show "updates ext this calls = Returns this' \<longrightarrow>
      currentCanvasRawWidthPx this \<le> currentCanvasRawWidthPx this' \<and>
      (canvasWidthCssPx this \<le> currentCanvasRawWidthPx this \<longrightarrow>
         canvasWidthCssPx this \<le> canvasWidthCssPx this')"
    using updates_width_monotone [of ext this calls this'] by blast
qed

theorem update_allocates_canvas_witness:
  "(\<exists>this' canvas'.
      update exampleExternals (exampleLayer []) exampleConfig \<lparr>widthPx = 800\<rparr> = Returns this' \<and>
      charRenderCanvas this' = Some canvas' \<and> canvasId canvas' = 0 \<and>
      canvasHeightCssPx this' = 240 \<and> canvasWidthCssPx this' = 800 \<and>
      elementWidth canvas' = 800 \<and> elementHeight canvas' = 240 \<and>
      optWidthPx (canvasOptions canvas') = 800 \<and> optHeightPx (canvasOptions canvas') = 240 \<and>
      usableWidthPx (canvasOptions canvas') = 800 \<and>
      usableHeightPx (canvasOptions canvas') = 240 \<and>
      styleWidth (clipDiv this') = Some 800 \<and> styleHeight (clipDiv this') = Some 140) \<and>
   (\<exists>this' canvas'.
      update exampleExternals exampleAfterUpdate exampleConfig \<lparr>widthPx = 1000\<rparr> = Returns this' \<and>
      charRenderCanvas this' = Some canvas' \<and> canvasId canvas' = 1 \<and>
      disposed this' = [0] \<and>
      canvasHeightCssPx this' = 240 \<and> canvasWidthCssPx this' = 1000 \<and>
      elementWidth canvas' = 1000 \<and> elementHeight canvas' = 240) \<and>
   (\<exists>this'.
      updates exampleExternals (exampleLayer [])
        [(exampleConfig, \<lparr>widthPx = 800\<rparr>), (exampleConfig, \<lparr>widthPx = 600\<rparr>)] = Returns this' \<and>
      currentCanvasRawWidthPx (exampleLayer []) \<le> currentCanvasRawWidthPx this' \<and>
      canvasWidthCssPx (exampleLayer []) \<le> canvasWidthCssPx this')"
proof -
  have hgt: "of_int \<lceil>numberTimes
               (of_int (round (numberTimes (of_nat (length [0, 1, 2, 3, 4, 5, 6 :: int])) (3 / 2))) + 1)
               (charHeightPx exampleConfig)\<rceil> = (240 :: real)"
    by (simp add: exampleConfig_def round_def numberTimes_examples)
  have req: "of_int \<lceil>numberTimes (of_nat (length [0, 1, 2, 3, 4, 5, 6 :: int]))
                         (charHeightPx exampleConfig)\<rceil> = (140 :: real)"
    by (simp add: exampleConfig_def numberTimes_examples)
  have ratio: "devicePixelRatio (exampleLayer []) = 1"
    by (simp add: exampleLayer_def setSession_def newCanvasTextLayer_def exampleExternals_def)
  have pair: "computeDevicePixelRatioPair exampleExternals 1 len =
                \<lparr>screenLength = len, renderLength = len\<rparr>" for len
    by (simp add: computeDevicePixelRatioPair_def)
  from update_allocates_canvas
    [where this = "exampleLayer []" and config = exampleConfig
       and viewPortSize = "\<lparr>widthPx = 800\<rparr>" and ext = exampleExternals,
     THEN conjunct1, THEN spec, of "[0, 1, 2, 3, 4, 5, 6]"]
    getVisibleRows_exampleLayer exampleLayer_fields(1) [of "[]"]
  obtain this1 canvas1 where
    u1: "update exampleExternals (exampleLayer []) exampleConfig \<lparr>widthPx = 800\<rparr> = Returns this1"
    and c1: "charRenderCanvas this1 = Some canvas1"
    and i1: "canvasId canvas1 = canvasesCreated (exampleLayer [])"
    and h1: "canvasHeightCssPx this1 =
               of_int \<lceil>numberTimes
                 (of_int (round (numberTimes (of_nat (length [0, 1, 2, 3, 4, 5, 6 :: int])) (3 / 2))) + 1)
                 (charHeightPx exampleConfig)\<rceil>"
    and w1: "canvasWidthCssPx this1 =
               max (widthPx \<lparr>widthPx = 800\<rparr>) (currentCanvasRawWidthPx (exampleLayer []))"
    and e1: "devicePixelRatio (exampleLayer []) = 1 \<longrightarrow>
               elementWidth canvas1 =
                 max (widthPx \<lparr>widthPx = 800\<rparr>) (currentCanvasRawWidthPx (exampleLayer [])) \<and>
               elementHeight canvas1 =
                 of_int \<lceil>numberTimes
                   (of_int (round (numberTimes (of_nat (length [0, 1, 2, 3, 4, 5, 6 :: int])) (3 / 2))) + 1)
                   (charHeightPx exampleConfig)\<rceil>"
    and o1: "optWidthPx (canvasOptions canvas1) =
               renderLength (computeDevicePixelRatioPair exampleExternals
                 (devicePixelRatio (exampleLayer []))
                 (max (widthPx \<lparr>widthPx = 800\<rparr>) (currentCanvasRawWidthPx (exampleLayer []))))"
      "optHeightPx (canvasOptions canvas1) =
               renderLength (computeDevicePixelRatioPair exampleExternals
                 (devicePixelRatio (exampleLayer []))
                 (of_int \<lceil>numberTimes
                   (of_int (round (numberTimes (of_nat (length [0, 1, 2, 3, 4, 5, 6 :: int])) (3 / 2))) + 1)
                   (charHeightPx exampleConfig)\<rceil>))"
      "usableWidthPx (canvasOptions canvas1) =
               numberTimes
                 (max (widthPx \<lparr>widthPx = 800\<rparr>) (currentCanvasRawWidthPx (exampleLayer [])))
                 (devicePixelRatio (exampleLayer []))"
      "usableHeightPx (canvasOptions canvas1) =
               numberTimes
                 (of_int \<lceil>numberTimes
                   (of_int (round (numberTimes (of_nat (length [0, 1, 2, 3, 4, 5, 6 :: int])) (3 / 2))) + 1)
                   (charHeightPx exampleConfig)\<rceil>)
                 (devicePixelRatio (exampleLayer []))"
    and s1: "styleWidth (clipDiv this1) =
               Some (max (widthPx \<lparr>widthPx = 800\<rparr>) (currentCanvasRawWidthPx (exampleLayer [])))"
      "styleHeight (clipDiv this1) =
               Some (of_int \<lceil>numberTimes (of_nat (length [0, 1, 2, 3, 4, 5, 6 :: int]))
                                 (charHeightPx exampleConfig)\<rceil>)"
    unfolding Let_def by auto
  have first: "\<exists>this' canvas'.
      update exampleExternals (exampleLayer []) exampleConfig \<lparr>widthPx = 800\<rparr> = Returns this' \<and>
      charRenderCanvas this' = Some canvas' \<and> canvasId canvas' = 0 \<and>
      canvasHeightCssPx this' = 240 \<and> canvasWidthCssPx this' = 800 \<and>
      elementWidth canvas' = 800 \<and> elementHeight canvas' = 240 \<and>
      optWidthPx (canvasOptions canvas') = 800 \<and> optHeightPx (canvasOptions canvas') = 240 \<and>
      usableWidthPx (canvasOptions canvas') = 800 \<and>
      usableHeightPx (canvasOptions canvas') = 240 \<and>
      styleWidth (clipDiv this') = Some 800 \<and> styleHeight (clipDiv this') = Some 140"
  proof (intro exI conjI)
    show "update exampleExternals (exampleLayer []) exampleConfig \<lparr>widthPx = 800\<rparr> = Returns this1"
      by (rule u1)
    show "charRenderCanvas this1 = Some canvas1" by (rule c1)
    show "canvasId canvas1 = 0" using i1 by (simp add: exampleLayer_fields)
    show "canvasHeightCssPx this1 = 240" using h1 unfolding hgt .
    show "canvasWidthCssPx this1 = 800" using w1 by (simp add: exampleLayer_fields)
    show "elementWidth canvas1 = 800" using e1 ratio by (simp add: exampleLayer_fields)
    show "elementHeight canvas1 = 240" using e1 ratio unfolding hgt by simp
    show "optWidthPx (canvasOptions canvas1) = 800"
      using o1(1) by (simp add: ratio pair exampleLayer_fields)
    show "optHeightPx (canvasOptions canvas1) = 240"
      using o1(2) unfolding hgt by (simp add: ratio pair)
    show "usableWidthPx (canvasOptions canvas1) = 800"
      using o1(3) by (simp add: ratio exampleLayer_fields numberTimes_examples)
    show "usableHeightPx (canvasOptions canvas1) = 240"
      using o1(4) unfolding hgt by (simp add: ratio numberTimes_examples)
    show "styleWidth (clipDiv this1) = Some 800" using s1(1) by (simp add: exampleLayer_fields)
    show "styleHeight (clipDiv this1) = Some 140" using s1(2) unfolding req .
  qed
  obtain old where old: "charRenderCanvas exampleAfterUpdate = Some old"
    and oid: "canvasId old = 0"
    using exampleAfterUpdate_fields(2) by auto
  have narrow: "canvasWidthCssPx exampleAfterUpdate < widthPx \<lparr>widthPx = 1000\<rparr>"
    by (simp add: exampleAfterUpdate_fields)
  from update_allocates_canvas
    [where this = exampleAfterUpdate and config = exampleConfig
       and viewPortSize = "\<lparr>widthPx = 1000\<rparr>" and ext = exampleExternals,
     THEN conjunct1, THEN spec, of "[0, 1, 2, 3, 4, 5, 6]"]
    getVisibleRows_exampleAfterUpdate narrow
  obtain this2 canvas2 where
    u2: "update exampleExternals exampleAfterUpdate exampleConfig \<lparr>widthPx = 1000\<rparr> = Returns this2"
    and c2: "charRenderCanvas this2 = Some canvas2"
    and i2: "canvasId canvas2 = canvasesCreated exampleAfterUpdate"
    and d2: "\<forall>old. charRenderCanvas exampleAfterUpdate = Some old \<longrightarrow>
               disposed this2 = disposed exampleAfterUpdate @ [canvasId old]"
    and h2: "canvasHeightCssPx this2 =
               of_int \<lceil>numberTimes
                 (of_int (round (numberTimes (of_nat (length [0, 1, 2, 3, 4, 5, 6 :: int])) (3 / 2))) + 1)
                 (charHeightPx exampleConfig)\<rceil>"
    and w2: "canvasWidthCssPx this2 =
               max (widthPx \<lparr>widthPx = 1000\<rparr>) (currentCanvasRawWidthPx exampleAfterUpdate)"
    and e2: "devicePixelRatio exampleAfterUpdate = 1 \<longrightarrow>
               elementWidth canvas2 =
                 max (widthPx \<lparr>widthPx = 1000\<rparr>) (currentCanvasRawWidthPx exampleAfterUpdate) \<and>
               elementHeight canvas2 =
                 of_int \<lceil>numberTimes
                   (of_int (round (numberTimes (of_nat (length [0, 1, 2, 3, 4, 5, 6 :: int])) (3 / 2))) + 1)
                   (charHeightPx exampleConfig)\<rceil>"
    unfolding Let_def by auto
  have second: "\<exists>this' canvas'.
      update exampleExternals exampleAfterUpdate exampleConfig \<lparr>widthPx = 1000\<rparr> = Returns this' \<and>
      charRenderCanvas this' = Some canvas' \<and> canvasId canvas' = 1 \<and>
      disposed this' = [0] \<and>
      canvasHeightCssPx this' = 240 \<and> canvasWidthCssPx this' = 1000 \<and>
      elementWidth canvas' = 1000 \<and> elementHeight canvas' = 240"
  proof (intro exI conjI)
    show "update exampleExternals exampleAfterUpdate exampleConfig \<lparr>widthPx = 1000\<rparr> = Returns this2"
      by (rule u2)
    show "charRenderCanvas this2 = Some canvas2" by (rule c2)
    show "canvasId canvas2 = 1" using i2 by (simp add: exampleAfterUpdate_fields)
    show "disposed this2 = [0]" using d2 old oid by (simp add: exampleAfterUpdate_more)
    show "canvasHeightCssPx this2 = 240" using h2 unfolding hgt .
    show "canvasWidthCssPx this2 = 1000" using w2 by (simp add: exampleAfterUpdate_fields)
    show "elementWidth canvas2 = 1000"
      using e2 by (simp add: exampleAfterUpdate_more exampleAfterUpdate_fields)
    show "elementHeight canvas2 = 240"
      using e2 unfolding hgt by (simp add: exampleAfterUpdate_more)
  qed
  from update_Returns [OF getVisibleRows_exampleAfterUpdate, of exampleExternals "\<lparr>widthPx = 600\<rparr>"]
  obtain final where
    "update exampleExternals exampleAfterUpdate exampleConfig \<lparr>widthPx = 600\<rparr> = Returns final"
    by blast
  then have run: "updates exampleExternals (exampleLayer [])
      [(exampleConfig, \<lparr>widthPx = 800\<rparr>), (exampleConfig, \<lparr>widthPx = 600\<rparr>)] = Returns final"
    by (simp add: exampleAfterUpdate_fields(1))
  have "canvasWidthCssPx (exampleLayer []) \<le> currentCanvasRawWidthPx (exampleLayer [])"
    by (simp add: exampleLayer_fields)
  with run update_allocates_canvas
    [where this = "exampleLayer []" and config = exampleConfig
       and viewPortSize = "\<lparr>widthPx = 800\<rparr>" and ext = exampleExternals, THEN conjunct2]
  have third: "\<exists>this'.
      updates exampleExternals (exampleLayer [])
        [(exampleConfig, \<lparr>widthPx = 800\<rparr>), (exampleConfig, \<lparr>widthPx = 600\<rparr>)] = Returns this' \<and>
      currentCanvasRawWidthPx (exampleLayer []) \<le> currentCanvasRawWidthPx this' \<and>
      canvasWidthCssPx (exampleLayer []) \<le> canvasWidthCssPx this'"
    by blast
  show ?thesis using first second third by blast
qed

subsection \<open>The setters\<close>

lemma update_fresh_canvas:
  assumes none: "charRenderCanvas this = None"
    and u: "update ext this config viewPortSize = Returns this'"
  shows "map_option canvasId (charRenderCanvas this') = Some (canvasesCreated this) \<and>
         canvasesCreated this' = canvasesCreated this + 1"
proof -
  let ?this1 = "this\<lparr>lastConfig := Some config, lastViewPortSize := Some viewPortSize\<rparr>"
  from update_Returns_rows [OF u] obtain rows where
    rows: "getVisibleRows this config = Returns rows" by blast
  from update_Returns [OF rows, of ext viewPortSize] u
  obtain canvas grid where
    c: "charRenderCanvas (setUpRenderCanvas ext ?this1 config viewPortSize (length rows)) =
          Some canvas"
    and this': "this' = (setUpRenderCanvas ext ?this1 config viewPortSize (length rows))
               \<lparr>charRenderCanvas := Some (canvas\<lparr>cellGrid := grid\<rparr>),
                renderPasses :=
                  renderPasses (setUpRenderCanvas ext ?this1 config viewPortSize (length rows)) + 1\<rparr>"
    by auto
  have alloc: "setUpRenderCanvas ext ?this1 config viewPortSize (length rows) =
          provisionCanvas ext ?this1 config (widthPx viewPortSize)
            (of_int \<lceil>numberTimes (of_nat (length rows)) (charHeightPx config)\<rceil>) (length rows)"
    using none by (simp add: setUpRenderCanvas_def Let_def)
  have "canvasId canvas = canvasesCreated this"
    using c provisionCanvas_fields(2)
      [of ext ?this1 config "widthPx viewPortSize"
          "of_int \<lceil>numberTimes (of_nat (length rows)) (charHeightPx config)\<rceil>" "length rows"]
    by (simp add: alloc)
  then show ?thesis by (simp add: this' alloc provisionCanvas_fields)
qed

text \<open>
  C8. \<^verbatim>\<open>setFontFamily\<close>, \<^verbatim>\<open>setFontSizePx\<close>, \<^verbatim>\<open>setDevicePixelRatio\<close>,
  \<^verbatim>\<open>setLigatureMarker\<close> and \<^verbatim>\<open>setTransparentBackground\<close> leave the layer without a
  canvas, the canvas it had being disposed, so that the next \<^verbatim>\<open>update\<close> that returns has
  created a new canvas. \<^verbatim>\<open>setPalette\<close> and \<^verbatim>\<open>setCursorStyle\<close> keep the canvas object
  and dispose nothing; \<^verbatim>\<open>setCursorStyle\<close> also renders once when a canvas exists.
\<close>

theorem setters_and_the_canvas:
  "(\<forall>that \<in> {setFontFamily this f, setFontSizePx this px, setDevicePixelRatio this r,
               setLigatureMarker this marker, setTransparentBackground this b}.
      charRenderCanvas that = None \<and>
      (\<forall>canvas. charRenderCanvas this = Some canvas \<longrightarrow>
         disposed that = disposed this @ [canvasId canvas]) \<and>
      (\<forall>config viewPortSize this'.
         update ext that config viewPortSize = Returns this' \<longrightarrow>
           map_option canvasId (charRenderCanvas this') = Some (canvasesCreated that) \<and>
           canvasesCreated this' = canvasesCreated that + 1)) \<and>
   (\<forall>that \<in> {setPalette this p, setCursorStyle this cs}.
      map_option canvasId (charRenderCanvas that) = map_option canvasId (charRenderCanvas this) \<and>
      disposed that = disposed this \<and> canvasesCreated that = canvasesCreated this) \<and>
   renderPasses (setPalette this p) = renderPasses this \<and>
   renderPasses (setCursorStyle this cs) =
     (if charRenderCanvas this = None then renderPasses this else renderPasses this + 1)"
proof -
  have gone: "charRenderCanvas (deleteCanvasElement that) = None \<and>
      (\<forall>canvas. charRenderCanvas that = Some canvas \<longrightarrow>
         disposed (deleteCanvasElement that) = disposed that @ [canvasId canvas]) \<and>
      (\<forall>config viewPortSize this'.
         update ext (deleteCanvasElement that) config viewPortSize = Returns this' \<longrightarrow>
           map_option canvasId (charRenderCanvas this') =
             Some (canvasesCreated (deleteCanvasElement that)) \<and>
           canvasesCreated this' = canvasesCreated (deleteCanvasElement that) + 1)"
    for that
    using update_fresh_canvas [of "deleteCanvasElement that" ext]
    by (auto simp add: deleteCanvasElement_fields)
  have five: "\<forall>that \<in> {setFontFamily this f, setFontSizePx this px, setDevicePixelRatio this r,
               setLigatureMarker this marker, setTransparentBackground this b}.
      charRenderCanvas that = None \<and>
      (\<forall>canvas. charRenderCanvas this = Some canvas \<longrightarrow>
         disposed that = disposed this @ [canvasId canvas]) \<and>
      (\<forall>config viewPortSize this'.
         update ext that config viewPortSize = Returns this' \<longrightarrow>
           map_option canvasId (charRenderCanvas this') = Some (canvasesCreated that) \<and>
           canvasesCreated this' = canvasesCreated that + 1)"
    using gone [of "this\<lparr>fontFamily := f\<rparr>"] gone [of "this\<lparr>fontSizePx := px\<rparr>"]
      gone [of "this\<lparr>devicePixelRatio := r\<rparr>"] gone [of "this\<lparr>ligatureMarker := marker\<rparr>"]
      gone [of "this\<lparr>transparentBackground := b\<rparr>"]
    by (simp add: setFontFamily_def setFontSizePx_def setDevicePixelRatio_def
        setLigatureMarker_def setTransparentBackground_def)
  have two: "\<forall>that \<in> {setPalette this p, setCursorStyle this cs}.
      map_option canvasId (charRenderCanvas that) = map_option canvasId (charRenderCanvas this) \<and>
      disposed that = disposed this \<and> canvasesCreated that = canvasesCreated this"
    by (simp add: setPalette_def setCursorStyle_def Let_def split: option.split)
  have passes: "renderPasses (setPalette this p) = renderPasses this"
    "renderPasses (setCursorStyle this cs) =
       (if charRenderCanvas this = None then renderPasses this else renderPasses this + 1)"
    by (simp_all add: setPalette_def setCursorStyle_def Let_def split: option.split)
  show ?thesis using five two passes by blast
qed

theorem setters_and_the_canvas_witness:
  "map_option canvasId (charRenderCanvas exampleAfterUpdate) = Some 0 \<and>
   charRenderCanvas (setFontSizePx exampleAfterUpdate 14) = None \<and>
   disposed (setFontSizePx exampleAfterUpdate 14) = [0] \<and>
   (\<exists>this'. update exampleExternals (setFontSizePx exampleAfterUpdate 14) exampleConfig
               \<lparr>widthPx = 800\<rparr> = Returns this' \<and>
      map_option canvasId (charRenderCanvas this') = Some 1 \<and> canvasesCreated this' = 2) \<and>
   map_option canvasId (charRenderCanvas (setPalette exampleAfterUpdate [])) = Some 0 \<and>
   map_option canvasId (charRenderCanvas (setCursorStyle exampleAfterUpdate BLOCK)) = Some 0 \<and>
   renderPasses exampleAfterUpdate = 1 \<and>
   renderPasses (setCursorStyle exampleAfterUpdate BLOCK) = 2"
proof -
  note inst = setters_and_the_canvas
    [of exampleAfterUpdate "''monospace''" 14 1 None False exampleExternals "[]" BLOCK]
  obtain canvas where c: "charRenderCanvas exampleAfterUpdate = Some canvas"
    and cid: "canvasId canvas = 0"
    using exampleAfterUpdate_fields(2) by auto
  have gone: "charRenderCanvas (setFontSizePx exampleAfterUpdate 14) = None"
    and disp: "disposed (setFontSizePx exampleAfterUpdate 14) = [0]"
    using inst c cid by (simp_all add: exampleAfterUpdate_more)
  have made: "canvasesCreated (setFontSizePx exampleAfterUpdate 14) = 1"
    by (simp add: setFontSizePx_def deleteCanvasElement_fields exampleAfterUpdate_fields)
  have "getVisibleRows (setFontSizePx exampleAfterUpdate 14) exampleConfig =
          Returns [0, 1, 2, 3, 4, 5, 6]"
    using getVisibleRows_session
      [of "setFontSizePx exampleAfterUpdate 14" exampleAfterUpdate exampleConfig]
      getVisibleRows_exampleAfterUpdate
    by (simp add: setFontSizePx_def deleteCanvasElement_fields)
  from update_Returns [OF this, of exampleExternals "\<lparr>widthPx = 800\<rparr>"]
  obtain this' where
    u: "update exampleExternals (setFontSizePx exampleAfterUpdate 14) exampleConfig
          \<lparr>widthPx = 800\<rparr> = Returns this'"
    by blast
  with inst made have fresh: "map_option canvasId (charRenderCanvas this') = Some 1 \<and>
      canvasesCreated this' = 2"
    by simp
  have keep: "map_option canvasId (charRenderCanvas (setPalette exampleAfterUpdate [])) = Some 0"
    "map_option canvasId (charRenderCanvas (setCursorStyle exampleAfterUpdate BLOCK)) = Some 0"
    using inst by (simp_all add: exampleAfterUpdate_fields)
  have rp: "renderPasses (setCursorStyle exampleAfterUpdate BLOCK) = 2"
    using inst c by (simp add: exampleAfterUpdate_more)
  show ?thesis
    using exampleAfterUpdate_fields(2) gone disp u fresh keep rp exampleAfterUpdate_more(1)
    by blast
qed

subsection \<open>\<^verbatim>\<open>updateRows\<close>\<close>

text \<open>
  C10. \<^verbatim>\<open>updateRows\<close> is \<^verbatim>\<open>update\<close>: whatever the first and the last row passed,
  its outcome is the outcome of \<^verbatim>\<open>update\<close> for the same config and viewport size.
\<close>

theorem updateRows_is_update:
  "updateRows ext this config viewPortSize firstR lastR = update ext this config viewPortSize"
  by (simp add: updateRows_def)

subsection \<open>\<^verbatim>\<open>mouseOver\<close>\<close>

lemma resolveHoveredURL_by_session:
  "(\<exists>u. \<forall>this. editSession this = es \<longrightarrow>
          resolveHoveredURL this pos = Returns (this\<lparr>hoveredURL := u\<rparr>)) \<or>
   (\<exists>e. \<forall>this. editSession this = es \<longrightarrow> resolveHoveredURL this pos = Throws e)"
proof (cases pos)
  case None
  then have "\<forall>this. editSession this = es \<longrightarrow>
               resolveHoveredURL this pos = Returns (this\<lparr>hoveredURL := None\<rparr>)"
    by (simp add: resolveHoveredURL_def)
  then show ?thesis by blast
next
  case p: (Some p)
  show ?thesis
  proof (cases es)
    case None
    with p have "\<forall>this. editSession this = es \<longrightarrow> resolveHoveredURL this pos = Throws TypeError"
      by (simp add: resolveHoveredURL_def)
    then show ?thesis by blast
  next
    case s: (Some session)
    show ?thesis
    proof (cases "getTerminalLine session (row p)")
      case None
      with p s have "\<forall>this. editSession this = es \<longrightarrow>
                       resolveHoveredURL this pos = Throws TypeError"
        by (simp add: resolveHoveredURL_def)
      then show ?thesis by blast
    next
      case (Some line)
      let ?lid = "if column p < width line then getLinkID line (column p) 0 else Some 0"
      from p s Some have "\<forall>this. editSession this = es \<longrightarrow>
          resolveHoveredURL this pos =
            Returns (this\<lparr>hoveredURL := (if ?lid = Some 0 then None
                                             else getLinkURLByID line ?lid)\<rparr>)"
        by (simp add: resolveHoveredURL_def Let_def)
      then show ?thesis by blast
    qed
  qed
qed

lemma resolveHoveredURL_session:
  assumes e: "editSession this' = editSession this"
    and r: "resolveHoveredURL this pos = Returns that"
  shows "resolveHoveredURL this' pos = Returns (this'\<lparr>hoveredURL := hoveredURL that\<rparr>)"
proof -
  from resolveHoveredURL_by_session [of "editSession this" pos]
  show ?thesis
  proof
    assume "\<exists>u. \<forall>x. editSession x = editSession this \<longrightarrow>
                  resolveHoveredURL x pos = Returns (x\<lparr>hoveredURL := u\<rparr>)"
    then obtain u where
      u: "\<And>x. editSession x = editSession this \<Longrightarrow>
               resolveHoveredURL x pos = Returns (x\<lparr>hoveredURL := u\<rparr>)"
      by blast
    from u [of this] r have "that = this\<lparr>hoveredURL := u\<rparr>" by simp
    then have "hoveredURL that = u" by simp
    with u [OF e] show ?thesis by simp
  next
    assume "\<exists>e. \<forall>x. editSession x = editSession this \<longrightarrow> resolveHoveredURL x pos = Throws e"
    with r show ?thesis by auto
  qed
qed

text \<open>
  C9. For every call of \<^verbatim>\<open>mouseOver\<close>: when the position is \<^verbatim>\<open>null\<close>, or when the
  row of the position has a terminal line and the column is at or past the width of the
  line or the link identifier of the cell is 0, the hovered URL becomes \<^verbatim>\<open>null\<close> and
  nothing is thrown by the resolution. Whenever the resolution returns: if the hovered URL
  is the one of before, \<^verbatim>\<open>mouseOver\<close> returns with the object unchanged and no render
  pass; if it differs, \<^verbatim>\<open>mouseOver\<close> is \<^verbatim>\<open>rerender\<close> on the object with the new URL,
  which is one more render pass once a config and a viewport size are cached. A second
  call with the same position after one that returned leaves the object unchanged.
\<close>

theorem mouseOver_rerenders_on_change:
  "((pos = None \<or>
     (\<exists>p session line. pos = Some p \<and> editSession this = Some session \<and>
        getTerminalLine session (row p) = Some line \<and>
        (width line \<le> column p \<or> getLinkID line (column p) 0 = Some 0))) \<longrightarrow>
      resolveHoveredURL this pos = Returns (this\<lparr>hoveredURL := None\<rparr>)) \<and>
   (\<forall>this1. resolveHoveredURL this pos = Returns this1 \<longrightarrow>
      (hoveredURL this1 = hoveredURL this \<longrightarrow>
         this1 = this \<and> mouseOver ext this pos = Returns this) \<and>
      (hoveredURL this1 \<noteq> hoveredURL this \<longrightarrow>
         mouseOver ext this pos = rerender ext this1 \<and>
         (\<forall>this'. lastConfig this \<noteq> None \<and> lastViewPortSize this \<noteq> None \<and>
            mouseOver ext this pos = Returns this' \<longrightarrow>
              renderPasses this' = renderPasses this + 1 \<and>
              hoveredURL this' = hoveredURL this1))) \<and>
   (\<forall>this'. mouseOver ext this pos = Returns this' \<longrightarrow> mouseOver ext this' pos = Returns this')"
proof (intro conjI)
  show "(pos = None \<or>
     (\<exists>p session line. pos = Some p \<and> editSession this = Some session \<and>
        getTerminalLine session (row p) = Some line \<and>
        (width line \<le> column p \<or> getLinkID line (column p) 0 = Some 0))) \<longrightarrow>
      resolveHoveredURL this pos = Returns (this\<lparr>hoveredURL := None\<rparr>)"
    by (auto simp add: resolveHoveredURL_def Let_def)
next
  show "\<forall>this1. resolveHoveredURL this pos = Returns this1 \<longrightarrow>
      (hoveredURL this1 = hoveredURL this \<longrightarrow>
         this1 = this \<and> mouseOver ext this pos = Returns this) \<and>
      (hoveredURL this1 \<noteq> hoveredURL this \<longrightarrow>
         mouseOver ext this pos = rerender ext this1 \<and>
         (\<forall>this'. lastConfig this \<noteq> None \<and> lastViewPortSize this \<noteq> None \<and>
            mouseOver ext this pos = Returns this' \<longrightarrow>
              renderPasses this' = renderPasses this + 1 \<and>
              hoveredURL this' = hoveredURL this1))"
  proof (intro allI impI conjI)
    fix this1
    assume r: "resolveHoveredURL this pos = Returns this1"
      and same: "hoveredURL this1 = hoveredURL this"
    from resolveHoveredURL_shape [OF r] same show eq: "this1 = this" by simp
    with r show "mouseOver ext this pos = Returns this" by (simp add: mouseOver_def)
  next
    fix this1
    assume r: "resolveHoveredURL this pos = Returns this1"
      and diff: "hoveredURL this1 \<noteq> hoveredURL this"
    then show "mouseOver ext this pos = rerender ext this1"
      by (auto simp add: mouseOver_def)
  next
    fix this1 this'
    assume r: "resolveHoveredURL this pos = Returns this1"
      and diff: "hoveredURL this1 \<noteq> hoveredURL this"
      and c: "lastConfig this \<noteq> None \<and> lastViewPortSize this \<noteq> None \<and>
              mouseOver ext this pos = Returns this'"
    from c obtain config viewPortSize where
      cfg: "lastConfig this = Some config" "lastViewPortSize this = Some viewPortSize" by auto
    have s1: "this1 = this\<lparr>hoveredURL := hoveredURL this1\<rparr>"
      by (rule resolveHoveredURL_shape [OF r])
    have "lastConfig this1 = Some config" "lastViewPortSize this1 = Some viewPortSize"
      "renderPasses this1 = renderPasses this"
      by (subst s1, simp add: cfg)+
    moreover have "rerender ext this1 = Returns this'"
      using r diff c by (auto simp add: mouseOver_def)
    ultimately have "update ext this1 config viewPortSize = Returns this'"
      "renderPasses this1 = renderPasses this"
      by (simp_all add: rerender_def)
    with update_frame [of ext this1 config viewPortSize this']
    show "renderPasses this' = renderPasses this + 1" "hoveredURL this' = hoveredURL this1"
      by simp_all
  qed
next
  show "\<forall>this'. mouseOver ext this pos = Returns this' \<longrightarrow> mouseOver ext this' pos = Returns this'"
  proof (intro allI impI)
    fix this'
    assume m: "mouseOver ext this pos = Returns this'"
    then obtain this1 where r: "resolveHoveredURL this pos = Returns this1"
      by (cases "resolveHoveredURL this pos") (simp_all add: mouseOver_def)
    have s1: "this1 = this\<lparr>hoveredURL := hoveredURL this1\<rparr>"
      by (rule resolveHoveredURL_shape [OF r])
    have e1: "editSession this1 = editSession this" by (subst s1) simp
    have "hoveredURL this' = hoveredURL this1 \<and> editSession this' = editSession this1"
    proof (cases "hoveredURL this = hoveredURL this1")
      case True
      with m r show ?thesis by (simp add: mouseOver_def)
    next
      case False
      with m r have "rerender ext this1 = Returns this'" by (simp add: mouseOver_def)
      from rerender_frame [OF this] show ?thesis .
    qed
    then have h: "hoveredURL this' = hoveredURL this1" and e: "editSession this' = editSession this"
      using e1 by simp_all
    from resolveHoveredURL_session [OF e r]
    have "resolveHoveredURL this' pos = Returns (this'\<lparr>hoveredURL := hoveredURL this1\<rparr>)" .
    then have "resolveHoveredURL this' pos = Returns this'" using h by simp
    then show "mouseOver ext this' pos = Returns this'" by (simp add: mouseOver_def)
  qed
qed
theorem mouseOver_rerenders_on_change_witness:
  "resolveHoveredURL exampleAfterUpdate None = Returns (exampleAfterUpdate\<lparr>hoveredURL := None\<rparr>) \<and>
   resolveHoveredURL exampleAfterUpdate (Some \<lparr>row = 0, column = 5\<rparr>) =
     Returns (exampleAfterUpdate\<lparr>hoveredURL := None\<rparr>) \<and>
   resolveHoveredURL exampleAfterUpdate (Some \<lparr>row = 0, column = 2\<rparr>) =
     Returns (exampleAfterUpdate\<lparr>hoveredURL := None\<rparr>) \<and>
   mouseOver exampleExternals exampleAfterUpdate None = Returns exampleAfterUpdate \<and>
   renderPasses exampleAfterUpdate = 1 \<and>
   (\<exists>this'. mouseOver exampleExternals exampleAfterUpdate (Some \<lparr>row = 0, column = 0\<rparr>) =
               Returns this' \<and>
      renderPasses this' = 2 \<and> hoveredURL this' = Some ''http://a'' \<and>
      mouseOver exampleExternals this' (Some \<lparr>row = 0, column = 0\<rparr>) = Returns this')"
proof -
  let ?p0 = "Some \<lparr>row = 0, column = 0\<rparr>"
  let ?linked = "exampleAfterUpdate\<lparr>hoveredURL := Some ''http://a''\<rparr>"
  have line: "getTerminalLine (exampleSession []) 0 = Some exampleLine"
    by (simp add: exampleSession_def)
  have null: "resolveHoveredURL exampleAfterUpdate None =
                Returns (exampleAfterUpdate\<lparr>hoveredURL := None\<rparr>)"
    using mouseOver_rerenders_on_change [of None exampleAfterUpdate exampleExternals] by simp
  have past: "resolveHoveredURL exampleAfterUpdate (Some \<lparr>row = 0, column = 5\<rparr>) =
                Returns (exampleAfterUpdate\<lparr>hoveredURL := None\<rparr>)"
    using mouseOver_rerenders_on_change
      [of "Some \<lparr>row = 0, column = 5\<rparr>" exampleAfterUpdate exampleExternals] line
    by (simp add: exampleAfterUpdate_fields exampleLine_def)
  have zero: "resolveHoveredURL exampleAfterUpdate (Some \<lparr>row = 0, column = 2\<rparr>) =
                Returns (exampleAfterUpdate\<lparr>hoveredURL := None\<rparr>)"
    using mouseOver_rerenders_on_change
      [of "Some \<lparr>row = 0, column = 2\<rparr>" exampleAfterUpdate exampleExternals] line
    by (simp add: exampleAfterUpdate_fields exampleLine_def getLinkID_def getCell_def inGrid_def)
  have still: "mouseOver exampleExternals exampleAfterUpdate None = Returns exampleAfterUpdate"
    using mouseOver_rerenders_on_change [of None exampleAfterUpdate exampleExternals] null
    by (simp add: exampleAfterUpdate_more)
  have link: "resolveHoveredURL exampleAfterUpdate ?p0 = Returns ?linked"
    using line
    by (simp add: resolveHoveredURL_def exampleAfterUpdate_fields exampleLine_def getLinkID_def
        getCell_def inGrid_def)
  have "getVisibleRows ?linked exampleConfig = Returns [0, 1, 2, 3, 4, 5, 6]"
    using getVisibleRows_session [of ?linked exampleAfterUpdate exampleConfig]
      getVisibleRows_exampleAfterUpdate
    by simp
  from update_Returns [OF this, of exampleExternals "\<lparr>widthPx = 800\<rparr>"]
  obtain this' where "update exampleExternals ?linked exampleConfig \<lparr>widthPx = 800\<rparr> = Returns this'"
    by blast
  then have re: "rerender exampleExternals ?linked = Returns this'"
    by (simp add: rerender_def exampleAfterUpdate_more)
  have diff: "hoveredURL ?linked \<noteq> hoveredURL exampleAfterUpdate"
    by (simp add: exampleAfterUpdate_more)
  have cached: "lastConfig exampleAfterUpdate \<noteq> None \<and> lastViewPortSize exampleAfterUpdate \<noteq> None"
    by (simp add: exampleAfterUpdate_more)
  from mouseOver_rerenders_on_change [of ?p0 exampleAfterUpdate exampleExternals] link diff
  have m: "mouseOver exampleExternals exampleAfterUpdate ?p0 = rerender exampleExternals ?linked"
    and passes: "\<forall>this'. lastConfig exampleAfterUpdate \<noteq> None \<and>
                   lastViewPortSize exampleAfterUpdate \<noteq> None \<and>
                   mouseOver exampleExternals exampleAfterUpdate ?p0 = Returns this' \<longrightarrow>
                   renderPasses this' = renderPasses exampleAfterUpdate + 1 \<and>
                   hoveredURL this' = hoveredURL ?linked"
    and again: "\<forall>this'. mouseOver exampleExternals exampleAfterUpdate ?p0 = Returns this' \<longrightarrow>
                  mouseOver exampleExternals this' ?p0 = Returns this'"
    by blast+
  have ret: "mouseOver exampleExternals exampleAfterUpdate ?p0 = Returns this'"
    using m re by simp
  with passes cached have "renderPasses this' = 2" "hoveredURL this' = Some ''http://a''"
    by (simp_all add: exampleAfterUpdate_more)
  moreover from again ret have "mouseOver exampleExternals this' ?p0 = Returns this'" by blast
  ultimately show ?thesis
    using null past zero still ret exampleAfterUpdate_more(1) by blast
qed

end
